theory Spec2Isabelle
  imports Complex_Main
begin

section \<open>V-Compass: geodesy, detection engine, tracking loop and narration queue\<close>

text \<open>
  The repository holds three variants of one React component:
  \<^item> \<^verbatim>\<open>src/src/App.jsx\<close> (synthetic data only, compound sector phrases, 5 km radius);
    its definitions carry the suffix \<open>_App\<close>;
  \<^item> the first file of \<^verbatim>\<open>src/unnamed/part_000\<close> (live and synthetic tracking, named
    intercardinal sectors, \<open>stopAllAudio\<close>, interval driven idle rotation); its definitions
    carry the source's names;
  \<^item> the second file of \<^verbatim>\<open>src/unnamed/part_000\<close> (live tracking, compound phrases,
    animation-frame driven idle rotation); its definitions carry the suffix \<open>_2\<close>.

  JavaScript numbers are modelled as mathematical reals: rounding, \<open>NaN\<close> and signed zeros are
  outside the model. React state is an explicit record, each handler a function from the
  state at the call to the state after it.
\<close>

subsection \<open>Geodesy\<close>

definition toRad :: "real \<Rightarrow> real" where
  "toRad deg = deg * pi / 180"

definition toDeg :: "real \<Rightarrow> real" where
  "toDeg rad = rad * 180 / pi"

text \<open>\<open>Math.atan2(y, x)\<close> on reals (the angle of the point \<open>(x, y)\<close>, in \<open>(-\<pi>, \<pi>]\<close>).\<close>

definition atan2 :: "real \<Rightarrow> real \<Rightarrow> real" where
  "atan2 y x =
     (if 0 < x then arctan (y / x)
      else if x < 0 then (if 0 \<le> y then arctan (y / x) + pi else arctan (y / x) - pi)
      else if 0 < y then pi / 2
      else if y < 0 then - (pi / 2)
      else 0)"

text \<open>The \<open>%\<close> operator of JavaScript: the remainder of the division truncated towards zero.\<close>

definition js_rem :: "real \<Rightarrow> real \<Rightarrow> real" where
  "js_rem a n = a - n * of_int (if 0 \<le> a / n then \<lfloor>a / n\<rfloor> else \<lceil>a / n\<rceil>)"

definition calculateDistance :: "real \<Rightarrow> real \<Rightarrow> real \<Rightarrow> real \<Rightarrow> real" where
  "calculateDistance lat1 lon1 lat2 lon2 =
     (let R = 6371;
          dLat = (lat2 - lat1) * pi / 180;
          dLon = (lon2 - lon1) * pi / 180;
          a = sin (dLat / 2) * sin (dLat / 2) +
              cos (lat1 * pi / 180) * cos (lat2 * pi / 180) *
              sin (dLon / 2) * sin (dLon / 2);
          c = 2 * atan2 (sqrt a) (sqrt (1 - a))
      in R * c)"

definition calculateBearing :: "real \<Rightarrow> real \<Rightarrow> real \<Rightarrow> real \<Rightarrow> real" where
  "calculateBearing lat1 lon1 lat2 lon2 =
     (let y = sin (toRad (lon2 - lon1)) * cos (toRad lat2);
          x = cos (toRad lat1) * sin (toRad lat2) -
              sin (toRad lat1) * cos (toRad lat2) * cos (toRad (lon2 - lon1))
      in js_rem (toDeg (atan2 y x) + 360) 360)"

text \<open>
  The sector classifier. \<open>getDirectionPhrase\<close> is the compound policy of
  \<^verbatim>\<open>App.jsx\<close> and of the second file of \<^verbatim>\<open>part_000\<close>; \<open>getDirectionPhrase_named\<close> is
  the named-intercardinal policy of the first file of \<^verbatim>\<open>part_000\<close>. Both are the
  source's chain of \<open>if\<close>s, the last line being the fallback.
\<close>

definition getDirectionPhrase :: "real \<Rightarrow> string list" where
  "getDirectionPhrase bearing =
     (if bearing > 337.5 \<or> bearing \<le> 22.5 then [''North'']
      else if bearing > 22.5 \<and> bearing \<le> 67.5 then [''between'', ''North'', ''and'', ''East'']
      else if bearing > 67.5 \<and> bearing \<le> 112.5 then [''East'']
      else if bearing > 112.5 \<and> bearing \<le> 157.5 then [''between'', ''East'', ''and'', ''South'']
      else if bearing > 157.5 \<and> bearing \<le> 202.5 then [''South'']
      else if bearing > 202.5 \<and> bearing \<le> 247.5 then [''between'', ''South'', ''and'', ''West'']
      else if bearing > 247.5 \<and> bearing \<le> 292.5 then [''West'']
      else if bearing > 292.5 \<and> bearing \<le> 337.5 then [''between'', ''West'', ''and'', ''North'']
      else [])"

definition getDirectionPhrase_named :: "real \<Rightarrow> string list" where
  "getDirectionPhrase_named bearing =
     (if bearing > 337.5 \<or> bearing \<le> 22.5 then [''North'']
      else if bearing > 22.5 \<and> bearing \<le> 67.5 then [''NorthEast'']
      else if bearing > 67.5 \<and> bearing \<le> 112.5 then [''East'']
      else if bearing > 112.5 \<and> bearing \<le> 157.5 then [''EastSouth'']
      else if bearing > 157.5 \<and> bearing \<le> 202.5 then [''South'']
      else if bearing > 202.5 \<and> bearing \<le> 247.5 then [''SouthWest'']
      else if bearing > 247.5 \<and> bearing \<le> 292.5 then [''West'']
      else if bearing > 292.5 \<and> bearing \<le> 337.5 then [''NorthWest'']
      else [])"

text \<open>
  The conditions of the eight branches, in the order of the source (they are the same in
  the three variants), and the phrase each branch returns under either policy.
\<close>

definition sectorBranches :: "real \<Rightarrow> bool list" where
  "sectorBranches bearing =
     [bearing > 337.5 \<or> bearing \<le> 22.5,
      bearing > 22.5 \<and> bearing \<le> 67.5,
      bearing > 67.5 \<and> bearing \<le> 112.5,
      bearing > 112.5 \<and> bearing \<le> 157.5,
      bearing > 157.5 \<and> bearing \<le> 202.5,
      bearing > 202.5 \<and> bearing \<le> 247.5,
      bearing > 247.5 \<and> bearing \<le> 292.5,
      bearing > 292.5 \<and> bearing \<le> 337.5]"

definition compoundPhrases :: "string list list" where
  "compoundPhrases =
     [[''North''], [''between'', ''North'', ''and'', ''East''], [''East''],
      [''between'', ''East'', ''and'', ''South''], [''South''],
      [''between'', ''South'', ''and'', ''West''], [''West''],
      [''between'', ''West'', ''and'', ''North'']]"

definition namedPhrases :: "string list list" where
  "namedPhrases =
     [[''North''], [''NorthEast''], [''East''], [''EastSouth''], [''South''],
      [''SouthWest''], [''West''], [''NorthWest'']]"

text \<open>
  The lower and the upper edge of the sectors other than North: sector \<open>k\<close>
  (\<open>1 \<le> k \<le> 7\<close>, clockwise from North) is \<open>(45 k - 22.5, 45 k + 22.5]\<close>.
\<close>

definition sectorLower :: "nat \<Rightarrow> real" where
  "sectorLower k = 45 * real k - 22.5"

definition sectorUpper :: "nat \<Rightarrow> real" where
  "sectorUpper k = 45 * real k + 22.5"

subsection \<open>Data model\<close>

text \<open>\<open>userLocation\<close> is the object \<open>{lat, lng}\<close>: a pair, latitude first.\<close>

type_synonym location = "real \<times> real"

text \<open>
  An element of \<open>data.planes\<close>, as the backend sends it. The aircraft the component
  keeps in \<open>detectedPlane\<close> is the object \<open>{...plane, altitude_ft, isMock}\<close>: the
  sighting with two more fields.
\<close>

record plane =
  icao24 :: string
  callsign :: string
  lat :: real
  lon :: real
  altitude_m :: real
  velocity_ms :: real

record detected =
  sighting :: plane
  altitude_ft :: real
  isMock :: bool

text \<open>
  The \<open>audio\<close> element of the narration (\<open>audioPlayerRef\<close>): the clip it holds and
  whether it sounds. The refs are attached before any handler can run.
\<close>

record audio =
  src :: string
  playing :: bool

text \<open>
  What the \<open>try\<close> block of a poll can throw (a rejected \<open>fetch\<close>, a status that is
  not ok, a body that does not parse), and the error of reading a field of \<open>null\<close>.
\<close>

datatype error = NetworkError | BackendError string | ParseError | TypeError

text \<open>
  The state of the component: the \<open>useState\<close> values, the refs of the narration, the
  number of times the notification sound was started (the new-detection signal), and
  whether the timer of each of the three effects is set.
\<close>

record app =
  geolocationSupported :: bool
  isTracking :: bool
  isMockMode :: bool
  userLocation :: "location option"
  detectedPlane :: "detected option"
  bearing :: real
  statusMessage :: string
  audioQueue :: "string list"
  isSpeaking :: bool
  audioPlayer :: audio
  notificationPlays :: nat
  trackingInterval :: bool
  mockInterval :: bool
  scanningInterval :: bool

definition NOTIFICATION_RADIUS_KM :: real where
  "NOTIFICATION_RADIUS_KM = 30"

definition MINIMUM_ALTITUDE_FT :: real where
  "MINIMUM_ALTITUDE_FT = 10000"

definition soundFiles :: "string \<rightharpoonup> string" where
  "soundFiles =
     [''notification'' \<mapsto> ''/arfan-odraa.mp3'',
      ''North'' \<mapsto> ''/aruna-vadak.mp3'',
      ''South'' \<mapsto> ''/aruna-thekk.mp3'',
      ''East'' \<mapsto> ''/aruna-kizhakk.mp3'',
      ''West'' \<mapsto> ''/aruna-padinjaru.mp3'',
      ''NorthWest'' \<mapsto> ''/fadil-north-west.mp3'',
      ''NorthEast'' \<mapsto> ''/fadil-north-east.mp3'',
      ''SouthWest'' \<mapsto> ''/fadil-south-west.mp3'',
      ''EastSouth'' \<mapsto> ''/fadil-east-south.mp3'']"

definition playNotificationSound :: "app \<Rightarrow> app" where
  "playNotificationSound s = s\<lparr>notificationPlays := Suc (notificationPlays s)\<rparr>"

text \<open>
  The loop over \<open>data.planes\<close>. Its three variables are \<open>closestPlaneForNotification\<close>
  (with the \<open>altitude_ft\<close> added to it), \<open>closestPlaneForCompass\<close> and
  \<open>minDistance\<close>, where \<open>None\<close> stands for the initial \<open>Infinity\<close>.
\<close>

type_synonym scan = "(plane \<times> real) option \<times> plane option \<times> real option"

definition scanPlane :: "location \<Rightarrow> scan \<Rightarrow> plane \<Rightarrow> scan" where
  "scanPlane userLoc acc plane =
     (case acc of (closestPlaneForNotification, closestPlaneForCompass, minDistance) \<Rightarrow>
        let distance = calculateDistance (fst userLoc) (snd userLoc) (lat plane) (lon plane);
            nearer = (case minDistance of None \<Rightarrow> True | Some m \<Rightarrow> distance < m);
            altitudeFt = altitude_m plane * 3.28084
        in (if distance < NOTIFICATION_RADIUS_KM \<and> altitudeFt > MINIMUM_ALTITUDE_FT
            then Some (plane, altitudeFt) else closestPlaneForNotification,
            if nearer then Some plane else closestPlaneForCompass,
            if nearer then Some distance else minDistance))"

definition scanPlanes :: "location \<Rightarrow> plane list \<Rightarrow> scan" where
  "scanPlanes userLoc planes = foldl (scanPlane userLoc) (None, None, None) planes"

text \<open>
  One poll is the async callback \<open>fetchRealPlaneData\<close>, which \<open>useCallback\<close> builds
  anew whenever \<open>userLocation\<close> or \<open>detectedPlane\<close> changes: inside it these two names
  are the values of the render that built it, also after the \<open>await\<close>, while the setters
  act on the state of the moment. So a poll has two halves. \<open>fetchIssued\<close> is the part
  before the \<open>await\<close>, on the state at the call. \<open>fetchResolved\<close> is the part after it,
  on the state at the answer: \<open>capturedLocation\<close> and \<open>capturedPlane\<close> are the values
  the callback holds, \<open>response\<close> is what the fetch gives (the sightings, or the error
  thrown inside the \<open>try\<close> block).
\<close>

definition fetchIssued :: "app \<Rightarrow> app" where
  "fetchIssued s =
     (case userLocation s of
        None \<Rightarrow> s
      | Some userLoc \<Rightarrow> s\<lparr>statusMessage := ''Scanning the skies for live data...''\<rparr>)"

definition fetchResolved ::
  "location option \<Rightarrow> detected option \<Rightarrow> app \<Rightarrow> error + plane list \<Rightarrow> app" where
  "fetchResolved capturedLocation capturedPlane s response =
     (case capturedLocation of
        None \<Rightarrow> s
      | Some userLoc \<Rightarrow>
          (case response of
             Inl e \<Rightarrow> s\<lparr>statusMessage := ''Error connecting to server. Is it running?''\<rparr>
           | Inr planes \<Rightarrow>
               (case scanPlanes userLoc planes of
                  (closestPlaneForNotification, closestPlaneForCompass, minDistance) \<Rightarrow>
                    let s2 = (case closestPlaneForCompass of
                                None \<Rightarrow> s
                              | Some c \<Rightarrow>
                                  s\<lparr>bearing := calculateBearing (fst userLoc) (snd userLoc)
                                                 (lat c) (lon c)\<rparr>)
                    in (case closestPlaneForNotification of
                          Some (p, altitudeFt) \<Rightarrow>
                            if (case capturedPlane of
                                  None \<Rightarrow> True
                                | Some d \<Rightarrow> icao24 (sighting d) \<noteq> icao24 p)
                            then playNotificationSound
                                   (s2\<lparr>detectedPlane :=
                                         Some \<lparr>sighting = p, altitude_ft = altitudeFt,
                                               isMock = False\<rparr>\<rparr>)
                            else s2
                        | None \<Rightarrow> s2\<lparr>detectedPlane := None\<rparr>))))"

text \<open>
  A poll that is answered before anything else happens to the component: the values the
  callback holds are those of the state it is called on.
\<close>

definition fetchRealPlaneData :: "app \<Rightarrow> error + plane list \<Rightarrow> app" where
  "fetchRealPlaneData s response =
     fetchResolved (userLocation s) (detectedPlane s) (fetchIssued s) response"

subsection \<open>The detection engine: what one poll selects\<close>

text \<open>
  Names for the parts of a poll the properties speak about: the distance of a sighting, the
  admission test of the loop, the two selections the loop ends with, and the identities of
  the candidate and of the aircraft under notification.
\<close>

definition distanceTo :: "location \<Rightarrow> plane \<Rightarrow> real" where
  "distanceTo userLoc plane = calculateDistance (fst userLoc) (snd userLoc) (lat plane) (lon plane)"

definition qualifies :: "location \<Rightarrow> plane \<Rightarrow> bool" where
  "qualifies userLoc plane \<longleftrightarrow>
     distanceTo userLoc plane < NOTIFICATION_RADIUS_KM \<and>
     altitude_m plane * 3.28084 > MINIMUM_ALTITUDE_FT"

definition notificationCandidate :: "location \<Rightarrow> plane list \<Rightarrow> (plane \<times> real) option" where
  "notificationCandidate userLoc planes = fst (scanPlanes userLoc planes)"

definition compassTarget :: "location \<Rightarrow> plane list \<Rightarrow> plane option" where
  "compassTarget userLoc planes = fst (snd (scanPlanes userLoc planes))"

definition candidateId :: "location \<Rightarrow> plane list \<Rightarrow> string option" where
  "candidateId userLoc planes = map_option (\<lambda>c. icao24 (fst c)) (notificationCandidate userLoc planes)"

definition notifiedId :: "app \<Rightarrow> string option" where
  "notifiedId s = map_option (\<lambda>d. icao24 (sighting d)) (detectedPlane s)"

text \<open>Consecutive poll cycles whose fetch succeeded, one batch of sightings each.\<close>

fun polls :: "app \<Rightarrow> plane list list \<Rightarrow> app" where
  "polls s [] = s"
| "polls s (planes # rest) = polls (fetchRealPlaneData s (Inr planes)) rest"

subsection \<open>Synthetic data\<close>

text \<open>
  The decimal digits of a non-negative integer, as JavaScript's string concatenation
  prints it (\<open>'mock' + Date.now()\<close>).
\<close>

definition digitChar :: "nat \<Rightarrow> char" where
  "digitChar d = char_of (48 + d)"

fun digits :: "nat \<Rightarrow> string" where
  "digits n = (if n < 10 then [digitChar n] else digits (n div 10) @ [digitChar (n mod 10)])"

declare digits.simps [simp del]

text \<open>
  The values \<open>Math.random()\<close> returns in one cycle, in the order of the calls.
\<close>

record draws =
  r_callsign :: real
  r_lat :: real
  r_lon :: real
  r_altitude :: real
  r_velocity :: real

text \<open>
  One synthetic poll of the first file of part_000; \<open>now\<close> is the value of
  \<open>Date.now()\<close>, in milliseconds.
\<close>

definition mockPlane :: "location \<Rightarrow> nat \<Rightarrow> draws \<Rightarrow> plane" where
  "mockPlane userLoc now r =
     \<lparr>icao24 = ''mock'' @ digits now,
      callsign = ''MOCK '' @ digits (nat \<lfloor>r_callsign r * 1000\<rfloor>),
      lat = fst userLoc + (r_lat r - 0.5) * 0.1,
      lon = snd userLoc + (r_lon r - 0.5) * 0.1,
      altitude_m = (MINIMUM_ALTITUDE_FT + r_altitude r * 20000) / 3.28084,
      velocity_ms = 200 + r_velocity r * 100\<rparr>"

definition mockFetchPlaneData :: "app \<Rightarrow> nat \<Rightarrow> draws \<Rightarrow> app" where
  "mockFetchPlaneData s now r =
     (case userLocation s of
        None \<Rightarrow> s
      | Some userLoc \<Rightarrow>
          let s1 = s\<lparr>statusMessage := ''Generating mock plane data...''\<rparr>;
              mp = mockPlane userLoc now r;
              distance = calculateDistance (fst userLoc) (snd userLoc) (lat mp) (lon mp);
              newBearing = calculateBearing (fst userLoc) (snd userLoc) (lat mp) (lon mp);
              altitudeFt = altitude_m mp * 3.28084;
              s2 = s1\<lparr>bearing := newBearing\<rparr>
          in if distance < NOTIFICATION_RADIUS_KM \<and> altitudeFt > MINIMUM_ALTITUDE_FT
             then (if (case detectedPlane s of
                         None \<Rightarrow> True
                       | Some d \<Rightarrow> icao24 (sighting d) \<noteq> icao24 mp)
                   then playNotificationSound
                          (s2\<lparr>detectedPlane :=
                                Some \<lparr>sighting = mp, altitude_ft = altitudeFt, isMock = True\<rparr>\<rparr>)
                   else s2)
             else s2\<lparr>detectedPlane := None\<rparr>)"

subsection \<open>The variant of App.jsx\<close>

record plane_App =
  icao24_App :: string
  callsign_App :: string
  lat_App :: real
  lon_App :: real
  altitude_App :: real
  velocity_App :: real

text \<open>
  \<open>sounding_App\<close> holds the keys of the \<open>Audio\<close> elements of \<open>audioRefs\<close> that are
  playing; \<open>notificationPlays_App\<close> counts the starts of the notification sound.
\<close>

record app_App =
  isTracking_App :: bool
  userLocation_App :: "location option"
  detectedPlane_App :: "plane_App option"
  bearing_App :: real
  statusMessage_App :: string
  audioQueue_App :: "string list"
  isSpeaking_App :: bool
  sounding_App :: "string set"
  notificationPlays_App :: nat

definition NOTIFICATION_RADIUS_KM_App :: real where
  "NOTIFICATION_RADIUS_KM_App = 5"

definition audioRefs_App :: "string \<rightharpoonup> string" where
  "audioRefs_App =
     [''North'' \<mapsto> ''https://actions.google.com/sounds/v1/beeps/beep_short.ogg'',
      ''South'' \<mapsto> ''https://actions.google.com/sounds/v1/beeps/beep_short.ogg'',
      ''East'' \<mapsto> ''https://actions.google.com/sounds/v1/beeps/beep_short.ogg'',
      ''West'' \<mapsto> ''https://actions.google.com/sounds/v1/beeps/beep_short.ogg'',
      ''between'' \<mapsto> ''https://actions.google.com/sounds/v1/beeps/quick_double_beep.ogg'',
      ''and'' \<mapsto> ''https://actions.google.com/sounds/v1/beeps/quick_double_beep.ogg'']"

definition mockPlane_App :: "location \<Rightarrow> nat \<Rightarrow> draws \<Rightarrow> plane_App" where
  "mockPlane_App userLoc now r =
     \<lparr>icao24_App = ''mock'' @ digits now,
      callsign_App = ''SKYFUN '' @ digits (nat \<lfloor>r_callsign r * 100\<rfloor>),
      lat_App = fst userLoc + (r_lat r - 0.5) * 0.1,
      lon_App = snd userLoc + (r_lon r - 0.5) * 0.1,
      altitude_App = MINIMUM_ALTITUDE_FT + r_altitude r * 20000,
      velocity_App = 200 + r_velocity r * 100\<rparr>"

definition mockFetchPlaneData_App :: "app_App \<Rightarrow> nat \<Rightarrow> draws \<Rightarrow> app_App" where
  "mockFetchPlaneData_App s now r =
     (case userLocation_App s of
        None \<Rightarrow> s
      | Some userLoc \<Rightarrow>
          let mp = mockPlane_App userLoc now r;
              distance = calculateDistance (fst userLoc) (snd userLoc) (lat_App mp) (lon_App mp);
              newBearing = calculateBearing (fst userLoc) (snd userLoc) (lat_App mp) (lon_App mp);
              s1 = s\<lparr>bearing_App := newBearing\<rparr>
          in if distance < NOTIFICATION_RADIUS_KM_App \<and> altitude_App mp > MINIMUM_ALTITUDE_FT
             then (if (case detectedPlane_App s of
                         None \<Rightarrow> True
                       | Some d \<Rightarrow> icao24_App d \<noteq> icao24_App mp)
                   then s1\<lparr>detectedPlane_App := Some mp,
                           notificationPlays_App := Suc (notificationPlays_App s)\<rparr>
                   else s1)
             else s1\<lparr>detectedPlane_App := None\<rparr>)"

text \<open>The admission test of \<open>mockFetchPlaneData\<close>, and the success callback of
  \<open>getCurrentPosition\<close>.\<close>

definition qualifies_App :: "location \<Rightarrow> plane_App \<Rightarrow> bool" where
  "qualifies_App userLoc mp \<longleftrightarrow>
     calculateDistance (fst userLoc) (snd userLoc) (lat_App mp) (lon_App mp)
       < NOTIFICATION_RADIUS_KM_App \<and>
     altitude_App mp > MINIMUM_ALTITUDE_FT"

definition locationFound_App :: "app_App \<Rightarrow> location \<Rightarrow> app_App" where
  "locationFound_App s loc =
     s\<lparr>userLocation_App := Some loc, statusMessage_App := ''Location found! Ready to track.''\<rparr>"

function playNextInQueue_App :: "app_App \<Rightarrow> app_App" where
  "playNextInQueue_App s =
     (case audioQueue_App s of
        [] \<Rightarrow> s\<lparr>isSpeaking_App := False\<rparr>
      | soundName # rest \<Rightarrow>
          (case audioRefs_App soundName of
             Some a \<Rightarrow> s\<lparr>isSpeaking_App := True, audioQueue_App := rest,
                          sounding_App := insert soundName (sounding_App s)\<rparr>
           | None \<Rightarrow> playNextInQueue_App (s\<lparr>isSpeaking_App := True, audioQueue_App := rest\<rparr>)))"
  by pat_completeness auto
termination
  by (relation "measure (\<lambda>s. length (audioQueue_App s))") auto

declare playNextInQueue_App.simps [simp del]

definition handleSpeakDirection_App :: "app_App \<Rightarrow> app_App" where
  "handleSpeakDirection_App s =
     (if isSpeaking_App s then s
      else let phrase = getDirectionPhrase (bearing_App s)
           in playNextInQueue_App (s\<lparr>audioQueue_App := phrase\<rparr>))"

subsection \<open>Narration in the first file of part_000\<close>

text \<open>
  \<open>handleSpeakDirection\<close> reads \<open>userLocation.lat\<close> after \<open>stopAllAudio\<close>: with no
  user position it throws.
\<close>

definition stopAllAudio :: "app \<Rightarrow> app" where
  "stopAllAudio s =
     s\<lparr>audioPlayer := (audioPlayer s)\<lparr>playing := False\<rparr>, audioQueue := [], isSpeaking := False\<rparr>"

function playNextInQueue :: "app \<Rightarrow> app" where
  "playNextInQueue s =
     (case audioQueue s of
        [] \<Rightarrow> s\<lparr>isSpeaking := False\<rparr>
      | soundName # rest \<Rightarrow>
          (case soundFiles soundName of
             Some soundSrc \<Rightarrow>
               s\<lparr>isSpeaking := True, audioQueue := rest,
                 audioPlayer := \<lparr>src = soundSrc, playing = True\<rparr>\<rparr>
           | None \<Rightarrow> playNextInQueue (s\<lparr>isSpeaking := True, audioQueue := rest\<rparr>)))"
  by pat_completeness auto
termination
  by (relation "measure (\<lambda>s. length (audioQueue s))") auto

declare playNextInQueue.simps [simp del]

definition handleSpeakDirection :: "app \<Rightarrow> error + app" where
  "handleSpeakDirection s =
     (if isSpeaking s then Inr s
      else case detectedPlane s of
             None \<Rightarrow> Inr s
           | Some d \<Rightarrow>
               let s1 = stopAllAudio s in
               (case userLocation s of
                  None \<Rightarrow> Inl TypeError
                | Some userLoc \<Rightarrow>
                    let planeBearing = calculateBearing (fst userLoc) (snd userLoc)
                                         (lat (sighting d)) (lon (sighting d));
                        phrase = getDirectionPhrase_named planeBearing
                    in Inr (playNextInQueue (s1\<lparr>audioQueue := phrase\<rparr>))))"

subsection \<open>Handlers and effects of the first file of part_000\<close>

definition getLocation :: "app \<Rightarrow> app" where
  "getLocation s =
     (if \<not> geolocationSupported s
      then s\<lparr>statusMessage := ''Geolocation is not supported by your browser.''\<rparr>
      else s\<lparr>statusMessage := ''Getting your location...''\<rparr>)"

text \<open>The two callbacks of \<open>getCurrentPosition\<close>.\<close>

definition locationFound :: "app \<Rightarrow> location \<Rightarrow> app" where
  "locationFound s loc =
     s\<lparr>userLocation := Some loc, statusMessage := ''Location found! Ready to track.''\<rparr>"

definition locationDenied :: "app \<Rightarrow> app" where
  "locationDenied s =
     s\<lparr>statusMessage := ''Unable to get location. Using default. Please allow access.'',
       userLocation := Some (10.5925, 76.1555)\<rparr>"

definition handleStartStopClick :: "app \<Rightarrow> app" where
  "handleStartStopClick s =
     (let s0 = (if userLocation s = None then getLocation s else s) in
      if isTracking s
      then (stopAllAudio s0)\<lparr>isTracking := False, statusMessage := ''Tracking stopped.''\<rparr>
      else (stopAllAudio s0)\<lparr>isMockMode := False, detectedPlane := None, isTracking := True,
             statusMessage := ''Live tracking activated...''\<rparr>)"

definition handleMockModeClick :: "app \<Rightarrow> app" where
  "handleMockModeClick s =
     (let s0 = (if userLocation s = None then getLocation s else s) in
      if isMockMode s
      then (stopAllAudio s0)\<lparr>isMockMode := False, statusMessage := ''Mock mode stopped.''\<rparr>
      else (stopAllAudio s0)\<lparr>isTracking := False, detectedPlane := None, isMockMode := True,
             statusMessage := ''Mock mode activated...''\<rparr>)"

text \<open>
  The callback of the scanning interval; a cleared interval no longer calls it.
\<close>

definition scanningTick :: "app \<Rightarrow> app" where
  "scanningTick s =
     (if scanningInterval s then s\<lparr>bearing := js_rem (bearing s + 2) 360\<rparr> else s)"

text \<open>
  The \<open>ended\<close> event of the narration player calls \<open>playNextInQueue\<close>; a rejected
  \<open>play()\<close> runs the \<open>catch\<close> of \<open>playNextInQueue\<close>. Neither happens on an idle player.
\<close>

definition audioEnded :: "app \<Rightarrow> app" where
  "audioEnded s =
     (if playing (audioPlayer s)
      then playNextInQueue (s\<lparr>audioPlayer := (audioPlayer s)\<lparr>playing := False\<rparr>\<rparr>)
      else s)"

definition playRejected :: "app \<Rightarrow> app" where
  "playRejected s =
     (if playing (audioPlayer s)
      then s\<lparr>audioPlayer := (audioPlayer s)\<lparr>playing := False\<rparr>, isSpeaking := False\<rparr>
      else s)"

text \<open>
  What can happen to the mounted component: the clicks, the answers of the location, of the
  backend and of the synthetic generator, the tick of the scanning timer, and the events of
  the narration player. An answer may arrive at any moment. \<open>LiveResponse\<close> is a live poll
  answered at once; \<open>FetchIssued\<close> and \<open>FetchResolved\<close> are the two halves of a live
  poll with other events in between, the answer carrying the values its callback holds.
  The synthetic poll has no \<open>await\<close>: it runs on the values of the last render.
\<close>

datatype event =
    StartStopClick
  | MockModeClick
  | LocationFound location
  | LocationDenied
  | LiveResponse "error + plane list"
  | FetchIssued
  | FetchResolved "location option" "detected option" "error + plane list"
  | MockPoll nat draws
  | ScanningTick
  | SpeakClick
  | AudioEnded
  | PlayRejected

fun dispatch :: "event \<Rightarrow> app \<Rightarrow> app" where
  "dispatch StartStopClick s = handleStartStopClick s"
| "dispatch MockModeClick s = handleMockModeClick s"
| "dispatch (LocationFound loc) s = locationFound s loc"
| "dispatch LocationDenied s = locationDenied s"
| "dispatch (LiveResponse response) s = fetchRealPlaneData s response"
| "dispatch FetchIssued s = fetchIssued s"
| "dispatch (FetchResolved capturedLocation capturedPlane response) s =
     fetchResolved capturedLocation capturedPlane s response"
| "dispatch (MockPoll now r) s = mockFetchPlaneData s now r"
| "dispatch ScanningTick s = scanningTick s"
| "dispatch SpeakClick s =
     (case handleSpeakDirection s of Inr s' \<Rightarrow> s' | Inl e \<Rightarrow> stopAllAudio s)"
| "dispatch AudioEnded s = audioEnded s"
| "dispatch PlayRejected s = playRejected s"

text \<open>
  The three \<open>useEffect\<close>s that own a timer. After a render React compares the dependency
  array of each effect with the one of the previous render; when it differs, the cleanup
  clears the timer and the body sets a new one if its condition holds. The functions
  \<open>fetchRealPlaneData\<close> and \<open>mockFetchPlaneData\<close> in the arrays change when
  \<open>userLocation\<close> or \<open>detectedPlane\<close> do. The body of the two polling effects also
  polls once at once; that poll is one of the events \<open>LiveResponse\<close> and \<open>MockPoll\<close>.
\<close>

definition trackingDeps :: "app \<Rightarrow> bool \<times> location option \<times> detected option" where
  "trackingDeps s = (isTracking s, userLocation s, detectedPlane s)"

definition mockDeps :: "app \<Rightarrow> bool \<times> location option \<times> detected option" where
  "mockDeps s = (isMockMode s, userLocation s, detectedPlane s)"

definition scanningDeps :: "app \<Rightarrow> bool \<times> bool \<times> detected option" where
  "scanningDeps s = (isTracking s, isMockMode s, detectedPlane s)"

definition commit :: "app \<Rightarrow> app \<Rightarrow> app" where
  "commit old new =
     (let s1 = (if trackingDeps new = trackingDeps old then new
                else new\<lparr>trackingInterval := (isTracking new \<and> userLocation new \<noteq> None)\<rparr>);
          s2 = (if mockDeps new = mockDeps old then s1
                else s1\<lparr>mockInterval := (isMockMode new \<and> userLocation new \<noteq> None)\<rparr>)
      in if scanningDeps new = scanningDeps old then s2
         else s2\<lparr>scanningInterval :=
                   ((isTracking new \<or> isMockMode new) \<and> detectedPlane new = None)\<rparr>)"

text \<open>
  A step is a handler followed by the pass over the effects; the reachable states start
  from the mounted component, whose first pass sets no timer.
\<close>

definition step :: "app \<Rightarrow> event \<Rightarrow> app" where
  "step s e = commit s (dispatch e s)"

definition initial :: "bool \<Rightarrow> app" where
  "initial supported =
     \<lparr>geolocationSupported = supported, isTracking = False, isMockMode = False,
      userLocation = None, detectedPlane = None, bearing = 0,
      statusMessage = ''Vimaanam Compass your compass to happiness.'',
      audioQueue = [], isSpeaking = False, audioPlayer = \<lparr>src = [], playing = False\<rparr>,
      notificationPlays = 0, trackingInterval = False, mockInterval = False,
      scanningInterval = False\<rparr>"

inductive reachable :: "app \<Rightarrow> bool" where
  reachable_initial: "reachable (initial supported)"
| reachable_step: "reachable s \<Longrightarrow> reachable (step s e)"

fun run :: "app \<Rightarrow> event list \<Rightarrow> app" where
  "run s [] = s"
| "run s (e # es) = run (step s e) es"

subsection \<open>Tracking and idle rotation in the second file of part_000\<close>

text \<open>
  The second file keeps \<open>{...plane, altitude_ft}\<close> in \<open>detectedPlane\<close>, runs the same
  loop in its poll (an async callback with the same two halves), and drives the idle rotation by \<open>requestAnimationFrame\<close>:
  \<open>animationFrame_2\<close> says that a frame is requested, \<open>lastTime_2\<close> is the variable of
  the effect. Its narration is the one of App.jsx (one \<open>Audio\<close> element for each word,
  the same table \<open>audioRefs\<close>), on a bearing it computes itself.
\<close>

record app_2 =
  geolocationSupported_2 :: bool
  isTracking_2 :: bool
  userLocation_2 :: "location option"
  detectedPlane_2 :: "(plane \<times> real) option"
  bearing_2 :: real
  statusMessage_2 :: string
  notificationPlays_2 :: nat
  trackingInterval_2 :: bool
  animationFrame_2 :: bool
  lastTime_2 :: "real option"
  audioQueue_2 :: "string list"
  isSpeaking_2 :: bool
  sounding_2 :: "string set"

definition fetchIssued_2 :: "app_2 \<Rightarrow> app_2" where
  "fetchIssued_2 s =
     (case userLocation_2 s of
        None \<Rightarrow> s
      | Some userLoc \<Rightarrow>
          s\<lparr>statusMessage_2 := ''Scanning the skies to find your happiness...''\<rparr>)"

definition fetchResolved_2 ::
  "location option \<Rightarrow> (plane \<times> real) option \<Rightarrow> app_2 \<Rightarrow> error + plane list \<Rightarrow> app_2"
  where
  "fetchResolved_2 capturedLocation capturedPlane s response =
     (case capturedLocation of
        None \<Rightarrow> s
      | Some userLoc \<Rightarrow>
          (case response of
             Inl e \<Rightarrow> s\<lparr>statusMessage_2 := ''Error connecting to server. Is it running?''\<rparr>
           | Inr planes \<Rightarrow>
               (case scanPlanes userLoc planes of
                  (closestPlaneForNotification, closestPlaneForCompass, minDistance) \<Rightarrow>
                    let s2 = (case closestPlaneForCompass of
                                None \<Rightarrow> s
                              | Some c \<Rightarrow>
                                  s\<lparr>bearing_2 := calculateBearing (fst userLoc) (snd userLoc)
                                                   (lat c) (lon c)\<rparr>)
                    in (case closestPlaneForNotification of
                          Some (p, altitudeFt) \<Rightarrow>
                            if (case capturedPlane of
                                  None \<Rightarrow> True
                                | Some d \<Rightarrow> icao24 (fst d) \<noteq> icao24 p)
                            then s2\<lparr>detectedPlane_2 := Some (p, altitudeFt),
                                    notificationPlays_2 := Suc (notificationPlays_2 s2)\<rparr>
                            else s2
                        | None \<Rightarrow> s2\<lparr>detectedPlane_2 := None\<rparr>))))"

definition fetchRealPlaneData_2 :: "app_2 \<Rightarrow> error + plane list \<Rightarrow> app_2" where
  "fetchRealPlaneData_2 s response =
     fetchResolved_2 (userLocation_2 s) (detectedPlane_2 s) (fetchIssued_2 s) response"

definition getLocation_2 :: "app_2 \<Rightarrow> app_2" where
  "getLocation_2 s =
     (if \<not> geolocationSupported_2 s
      then s\<lparr>statusMessage_2 := ''Geolocation is not supported by your browser.''\<rparr>
      else s\<lparr>statusMessage_2 := ''Getting your location...''\<rparr>)"

definition locationFound_2 :: "app_2 \<Rightarrow> location \<Rightarrow> app_2" where
  "locationFound_2 s loc =
     s\<lparr>userLocation_2 := Some loc, statusMessage_2 := ''Location found! Ready to track.''\<rparr>"

definition locationDenied_2 :: "app_2 \<Rightarrow> app_2" where
  "locationDenied_2 s =
     s\<lparr>statusMessage_2 := ''Unable to get location. Please allow access.'',
       userLocation_2 := Some (10.5925, 76.1555)\<rparr>"

text \<open>
  \<open>granted\<close>: the notification permission is granted, at the click or on the request the
  click makes; otherwise the handler only alerts.
\<close>

definition handleStartStopClick_2 :: "app_2 \<Rightarrow> bool \<Rightarrow> app_2" where
  "handleStartStopClick_2 s granted =
     (let s0 = (if userLocation_2 s = None then getLocation_2 s else s) in
      if granted then s0\<lparr>isTracking_2 := \<not> isTracking_2 s0\<rparr> else s0)"

text \<open>
  \<open>rotateNeedle(time)\<close>, the callback of the requested animation frame; a cancelled frame
  no longer calls it. \<open>isTracking\<close> and \<open>detectedPlane\<close> are the values of the render
  whose effect requested the frame, which are the current ones, since the effect runs
  again whenever either changes.
\<close>

definition rotateNeedle_2 :: "app_2 \<Rightarrow> real \<Rightarrow> app_2" where
  "rotateNeedle_2 s time =
     (if \<not> animationFrame_2 s then s
      else let lastTime = (case lastTime_2 s of
                             None \<Rightarrow> time
                           | Some l \<Rightarrow> if l = 0 then time else l);
               delta = (time - lastTime) / 1000
           in s\<lparr>lastTime_2 := Some time,
                bearing_2 := js_rem (bearing_2 s + delta * 2) 360,
                animationFrame_2 := (isTracking_2 s \<and> detectedPlane_2 s = None)\<rparr>)"

function playNextInQueue_2 :: "app_2 \<Rightarrow> app_2" where
  "playNextInQueue_2 s =
     (case audioQueue_2 s of
        [] \<Rightarrow> s\<lparr>isSpeaking_2 := False\<rparr>
      | soundName # rest \<Rightarrow>
          (case audioRefs_App soundName of
             Some a \<Rightarrow> s\<lparr>isSpeaking_2 := True, audioQueue_2 := rest,
                          sounding_2 := insert soundName (sounding_2 s)\<rparr>
           | None \<Rightarrow> playNextInQueue_2 (s\<lparr>isSpeaking_2 := True, audioQueue_2 := rest\<rparr>)))"
  by pat_completeness auto
termination
  by (relation "measure (\<lambda>s. length (audioQueue_2 s))") auto

declare playNextInQueue_2.simps [simp del]

definition handleSpeakDirection_2 :: "app_2 \<Rightarrow> error + app_2" where
  "handleSpeakDirection_2 s =
     (if isSpeaking_2 s then Inr s
      else case detectedPlane_2 s of
             None \<Rightarrow> Inr s
           | Some d \<Rightarrow>
               (case userLocation_2 s of
                  None \<Rightarrow> Inl TypeError
                | Some userLoc \<Rightarrow>
                    let planeBearing = calculateBearing (fst userLoc) (snd userLoc)
                                         (lat (fst d)) (lon (fst d));
                        phrase = getDirectionPhrase planeBearing
                    in Inr (playNextInQueue_2 (s\<lparr>audioQueue_2 := phrase\<rparr>))))"

text \<open>The \<open>ended\<close> event of the \<open>Audio\<close> element of a word calls \<open>playNextInQueue\<close>.\<close>

definition audioEnded_2 :: "app_2 \<Rightarrow> string \<Rightarrow> app_2" where
  "audioEnded_2 s soundName =
     (if soundName \<in> sounding_2 s
      then playNextInQueue_2 (s\<lparr>sounding_2 := sounding_2 s - {soundName}\<rparr>)
      else s)"

datatype event_2 =
    StartStopClick_2 bool
  | LocationFound_2 location
  | LocationDenied_2
  | LiveResponse_2 "error + plane list"
  | FetchIssued_2
  | FetchResolved_2 "location option" "(plane \<times> real) option" "error + plane list"
  | AnimationFrame_2 real
  | SpeakClick_2
  | AudioEnded_2 string

fun dispatch_2 :: "event_2 \<Rightarrow> app_2 \<Rightarrow> app_2" where
  "dispatch_2 (StartStopClick_2 granted) s = handleStartStopClick_2 s granted"
| "dispatch_2 (LocationFound_2 loc) s = locationFound_2 s loc"
| "dispatch_2 LocationDenied_2 s = locationDenied_2 s"
| "dispatch_2 (LiveResponse_2 response) s = fetchRealPlaneData_2 s response"
| "dispatch_2 FetchIssued_2 s = fetchIssued_2 s"
| "dispatch_2 (FetchResolved_2 capturedLocation capturedPlane response) s =
     fetchResolved_2 capturedLocation capturedPlane s response"
| "dispatch_2 (AnimationFrame_2 time) s = rotateNeedle_2 s time"
| "dispatch_2 SpeakClick_2 s =
     (case handleSpeakDirection_2 s of Inr s' \<Rightarrow> s' | Inl e \<Rightarrow> s)"
| "dispatch_2 (AudioEnded_2 soundName) s = audioEnded_2 s soundName"

text \<open>
  The effect of the poll timer also sets the status string; the effect of the needle starts
  with \<open>lastTime = null\<close>.
\<close>

definition trackingDeps_2 :: "app_2 \<Rightarrow> bool \<times> location option \<times> (plane \<times> real) option" where
  "trackingDeps_2 s = (isTracking_2 s, userLocation_2 s, detectedPlane_2 s)"

definition needleDeps_2 :: "app_2 \<Rightarrow> bool \<times> (plane \<times> real) option" where
  "needleDeps_2 s = (isTracking_2 s, detectedPlane_2 s)"

definition commit_2 :: "app_2 \<Rightarrow> app_2 \<Rightarrow> app_2" where
  "commit_2 old new =
     (let s1 = (if trackingDeps_2 new = trackingDeps_2 old then new
                else if isTracking_2 new \<and> userLocation_2 new \<noteq> None
                then new\<lparr>trackingInterval_2 := True, statusMessage_2 := ''Scanning the skies...''\<rparr>
                else if \<not> isTracking_2 new
                then new\<lparr>trackingInterval_2 := False, statusMessage_2 := ''Tracking stopped.''\<rparr>
                else new\<lparr>trackingInterval_2 := False\<rparr>)
      in if needleDeps_2 new = needleDeps_2 old then s1
         else s1\<lparr>lastTime_2 := None,
                 animationFrame_2 := (isTracking_2 new \<and> detectedPlane_2 new = None)\<rparr>)"

definition step_2 :: "app_2 \<Rightarrow> event_2 \<Rightarrow> app_2" where
  "step_2 s e = commit_2 s (dispatch_2 e s)"

definition initial_2 :: "bool \<Rightarrow> app_2" where
  "initial_2 supported =
     \<lparr>geolocationSupported_2 = supported, isTracking_2 = False, userLocation_2 = None,
      detectedPlane_2 = None, bearing_2 = 0, statusMessage_2 = ''Tracking stopped.'',
      notificationPlays_2 = 0, trackingInterval_2 = False, animationFrame_2 = False,
      lastTime_2 = None, audioQueue_2 = [], isSpeaking_2 = False, sounding_2 = {}\<rparr>"

inductive reachable_2 :: "app_2 \<Rightarrow> bool" where
  reachable_2_initial: "reachable_2 (initial_2 supported)"
| reachable_2_step: "reachable_2 s \<Longrightarrow> reachable_2 (step_2 s e)"

subsection \<open>Example inputs\<close>

definition exampleUser :: location where
  "exampleUser = (0, 0)"

definition nearPlane :: plane where
  "nearPlane = \<lparr>icao24 = ''aaa111'', callsign = ''NEAR1'', lat = 0, lon = 0,
                 altitude_m = 4000, velocity_ms = 200\<rparr>"

definition farPlane :: plane where
  "farPlane = \<lparr>icao24 = ''bbb222'', callsign = ''FAR2'', lat = 0.1, lon = 0,
                altitude_m = 4000, velocity_ms = 200\<rparr>"

definition lowPlane :: plane where
  "lowPlane = \<lparr>icao24 = ''ccc333'', callsign = ''LOW3'', lat = 0, lon = 0,
                altitude_m = 100, velocity_ms = 60\<rparr>"

text \<open>
  The state after a click on the start button (or on the mock button) and the resolution of
  the location: tracking is active at \<open>userLoc\<close> and nothing is detected yet. Then
  the state after one more successful live poll.
\<close>

definition trackingAt :: "location \<Rightarrow> app" where
  "trackingAt userLoc = run (initial True) [StartStopClick, LocationFound userLoc]"

definition mockingAt :: "location \<Rightarrow> app" where
  "mockingAt userLoc = run (initial True) [MockModeClick, LocationFound userLoc]"

definition detectedAt :: "location \<Rightarrow> plane list \<Rightarrow> app" where
  "detectedAt userLoc planes = step (trackingAt userLoc) (LiveResponse (Inr planes))"

text \<open>
  The first file of part_000 while the clip of North is playing: the far aircraft is
  notified and the narration button was clicked.
\<close>

definition narrating :: app where
  "narrating = step (detectedAt exampleUser [farPlane]) SpeakClick"

text \<open>The same two states for the second file of part_000.\<close>

definition trackingAt_2 :: "location \<Rightarrow> app_2" where
  "trackingAt_2 userLoc =
     step_2 (step_2 (initial_2 True) (StartStopClick_2 True)) (LocationFound_2 userLoc)"

definition detectedAt_2 :: "location \<Rightarrow> plane list \<Rightarrow> app_2" where
  "detectedAt_2 userLoc planes = step_2 (trackingAt_2 userLoc) (LiveResponse_2 (Inr planes))"

text \<open>The component of App.jsx tracking at \<open>userLoc\<close>, nothing detected yet.\<close>

definition mockingAt_App :: "location \<Rightarrow> app_App" where
  "mockingAt_App userLoc =
     \<lparr>isTracking_App = True, userLocation_App = Some userLoc, detectedPlane_App = None,
      bearing_App = 0, statusMessage_App = ''Scanning the skies...'', audioQueue_App = [],
      isSpeaking_App = False, sounding_App = {}, notificationPlays_App = 0\<rparr>"

text \<open>
  Random draws that put the synthetic aircraft at the user's position, and draws that put
  it 0.03 degrees east of it; both at 20000 ft.
\<close>

definition centredDraws :: draws where
  "centredDraws = \<lparr>r_callsign = 0.5, r_lat = 0.5, r_lon = 0.5, r_altitude = 0.5,
                    r_velocity = 0.5\<rparr>"

definition eastDraws :: draws where
  "eastDraws = \<lparr>r_callsign = 0.5, r_lat = 0.5, r_lon = 0.8, r_altitude = 0.5,
                 r_velocity = 0.5\<rparr>"

text \<open>
  App.jsx with the user at \<open>(0, 0)\<close>: one synthetic poll detects an aircraft 0.03 degrees
  east, then a second location callback (the start button was clicked again before the
  first one answered) moves the user to \<open>(-0.03, 0.03)\<close>, from where the aircraft is due
  north.
\<close>

definition staleState_App :: app_App where
  "staleState_App =
     locationFound_App
       (mockFetchPlaneData_App (mockingAt_App (0, 0)) 1700000000000 eastDraws)
       (- 0.03, 0.03)"

subsection \<open>Facts about the geodesy functions\<close>

lemma calculateDistance_same: "calculateDistance la lo la lo = 0"
  by (simp add: calculateDistance_def atan2_def)

lemma calculateDistance_meridian:
  assumes "0 \<le> d" "d < 180"
  shows "calculateDistance la lo (la + d) lo = 6371 * (d * pi / 180)"
proof -
  define h where "h = d * pi / 360"
  have h0: "0 \<le> h" using assms by (simp add: h_def)
  have h1: "h < pi / 2" using assms pi_gt_zero by (simp add: h_def)
  have c: "0 < cos h" using h0 h1 by (intro cos_gt_zero_pi) auto
  have s: "0 \<le> sin h" using h0 h1 pi_gt_zero by (intro sin_ge_zero) auto
  have q: "1 - (sin h)\<^sup>2 = (cos h)\<^sup>2"
    using sin_cos_squared_add [of h] by linarith
  have "arctan (tan h) = h"
    using h0 h1 by (intro arctan_tan) auto
  then have at: "atan2 (sin h) (cos h) = h"
    using c by (simp add: atan2_def tan_def)
  have dl: "(la + d - la) * pi / 180 / 2 = h" by (simp add: h_def)
  have sq1: "sqrt ((sin h)\<^sup>2) = sin h" using s by simp
  have sq2: "sqrt (1 - (sin h)\<^sup>2) = cos h" using c by (simp add: q)
  have "calculateDistance la lo (la + d) lo =
      6371 * (2 * atan2 (sqrt ((sin h)\<^sup>2)) (sqrt (1 - (sin h)\<^sup>2)))"
    unfolding calculateDistance_def Let_def dl by (simp add: power2_eq_square)
  also have "\<dots> = 6371 * (2 * h)" by (simp only: sq1 sq2 at)
  also have "\<dots> = 6371 * (d * pi / 180)" by (simp add: h_def)
  finally show ?thesis .
qed

lemma calculateBearing_north:
  assumes "0 < d" "d < 180"
  shows "calculateBearing la lo (la + d) lo = 0"
proof -
  have e: "toRad (la + d) = toRad la + toRad d"
    by (simp add: toRad_def algebra_simps add_divide_distrib)
  have "cos (toRad la) * sin (toRad (la + d)) - sin (toRad la) * cos (toRad (la + d))
      = sin (toRad d)"
    unfolding e using sin_diff [of "toRad la + toRad d" "toRad la"] by (simp add: mult.commute)
  moreover have "0 < sin (toRad d)"
    using assms pi_gt_zero by (intro sin_gt_zero) (auto simp: toRad_def)
  ultimately have "atan2 (sin (toRad (lo - lo)) * cos (toRad (la + d)))
      (cos (toRad la) * sin (toRad (la + d)) -
       sin (toRad la) * cos (toRad (la + d)) * cos (toRad (lo - lo))) = 0"
    by (simp add: atan2_def toRad_def)
  then show ?thesis
    by (simp add: calculateBearing_def Let_def toDeg_def js_rem_def)
qed

subsection \<open>The sector classifier\<close>

lemma getDirectionPhrase_North:
  "b > 337.5 \<or> b \<le> 22.5 \<Longrightarrow> getDirectionPhrase b = [''North'']"
  by (simp add: getDirectionPhrase_def)

lemma getDirectionPhrase_named_North:
  "b > 337.5 \<or> b \<le> 22.5 \<Longrightarrow> getDirectionPhrase_named b = [''North'']"
  by (simp add: getDirectionPhrase_named_def)

lemma getDirectionPhrase_sector:
  assumes "1 \<le> k" "k \<le> 7" "sectorLower k < b" "b \<le> sectorUpper k"
  shows "getDirectionPhrase b = compoundPhrases ! k"
proof -
  from assms(1,2) have "k = 1 \<or> k = 2 \<or> k = 3 \<or> k = 4 \<or> k = 5 \<or> k = 6 \<or> k = 7"
    by arith
  then show ?thesis
    using assms(3,4)
    by (elim disjE)
      (simp_all add: getDirectionPhrase_def compoundPhrases_def sectorLower_def sectorUpper_def)
qed

lemma getDirectionPhrase_named_sector:
  assumes "1 \<le> k" "k \<le> 7" "sectorLower k < b" "b \<le> sectorUpper k"
  shows "getDirectionPhrase_named b = namedPhrases ! k"
proof -
  from assms(1,2) have "k = 1 \<or> k = 2 \<or> k = 3 \<or> k = 4 \<or> k = 5 \<or> k = 6 \<or> k = 7"
    by arith
  then show ?thesis
    using assms(3,4)
    by (elim disjE)
      (simp_all add: getDirectionPhrase_named_def namedPhrases_def sectorLower_def sectorUpper_def)
qed

text \<open>
  C4 (corrected). The claim puts exactly 337.5 degrees into North. The source's North branch
  is \<open>bearing > 337.5 || bearing <= 22.5\<close>: 337.5 itself fails both tests and falls into
  the last sector, \<open>bearing > 292.5 && bearing <= 337.5\<close>, which is the closed upper edge
  of the West-North sector, as the rule for the other sectors says.
\<close>

theorem sector_337_5_not_North:
  "getDirectionPhrase 337.5 = [''between'', ''West'', ''and'', ''North''] \<and>
   getDirectionPhrase_named 337.5 = [''NorthWest''] \<and>
   getDirectionPhrase 337.5 \<noteq> [''North''] \<and>
   getDirectionPhrase_named 337.5 \<noteq> [''North'']"
  by (simp add: getDirectionPhrase_def getDirectionPhrase_named_def)

text \<open>
  C4 as amended: a bearing of exactly 0 degrees resolves to North, and so does every bearing
  strictly above 337.5 degrees (up to 360 and beyond) and every bearing up to and including
  22.5 degrees, so the North sector wraps across 0/360; exactly 337.5 degrees resolves to the
  West-North sector; each of the seven other sectors \<open>k\<close> is open on its lower edge
  \<open>45 k - 22.5\<close> and closed on its upper edge \<open>45 k + 22.5\<close>, under both policies.
\<close>

theorem sector_boundary_rule:
  "getDirectionPhrase 0 = [''North''] \<and> getDirectionPhrase_named 0 = [''North''] \<and>
   (\<forall>b. 337.5 < b \<or> b \<le> 22.5 \<longrightarrow>
      getDirectionPhrase b = [''North''] \<and> getDirectionPhrase_named b = [''North'']) \<and>
   getDirectionPhrase 337.5 = compoundPhrases ! 7 \<and>
   getDirectionPhrase_named 337.5 = namedPhrases ! 7 \<and>
   (\<forall>k b. 1 \<le> k \<and> k \<le> 7 \<and> sectorLower k < b \<and> b \<le> sectorUpper k \<longrightarrow>
      getDirectionPhrase b = compoundPhrases ! k \<and>
      getDirectionPhrase_named b = namedPhrases ! k) \<and>
   (\<forall>k. 1 \<le> k \<and> k \<le> 7 \<longrightarrow>
      getDirectionPhrase (sectorUpper k) = compoundPhrases ! k \<and>
      getDirectionPhrase (sectorLower k) = compoundPhrases ! (k - 1) \<and>
      getDirectionPhrase_named (sectorUpper k) = namedPhrases ! k \<and>
      getDirectionPhrase_named (sectorLower k) = namedPhrases ! (k - 1))"
proof (intro conjI allI impI)
  show "getDirectionPhrase 0 = [''North'']" by (simp add: getDirectionPhrase_def)
  show "getDirectionPhrase_named 0 = [''North'']" by (simp add: getDirectionPhrase_named_def)
  show "getDirectionPhrase 337.5 = compoundPhrases ! 7"
    by (simp add: getDirectionPhrase_def compoundPhrases_def)
  show "getDirectionPhrase_named 337.5 = namedPhrases ! 7"
    by (simp add: getDirectionPhrase_named_def namedPhrases_def)
next
  fix b :: real
  assume "337.5 < b \<or> b \<le> 22.5"
  then show "getDirectionPhrase b = [''North'']" "getDirectionPhrase_named b = [''North'']"
    by (simp_all add: getDirectionPhrase_North getDirectionPhrase_named_North)
next
  fix k :: nat and b :: real
  assume "1 \<le> k \<and> k \<le> 7 \<and> sectorLower k < b \<and> b \<le> sectorUpper k"
  then show "getDirectionPhrase b = compoundPhrases ! k"
    "getDirectionPhrase_named b = namedPhrases ! k"
    by (simp_all add: getDirectionPhrase_sector getDirectionPhrase_named_sector)
next
  fix k :: nat
  assume k: "1 \<le> k \<and> k \<le> 7"
  have lu: "sectorLower k < sectorUpper k"
    by (simp add: sectorLower_def sectorUpper_def)
  show "getDirectionPhrase (sectorUpper k) = compoundPhrases ! k"
    using k lu by (simp add: getDirectionPhrase_sector)
  show "getDirectionPhrase_named (sectorUpper k) = namedPhrases ! k"
    using k lu by (simp add: getDirectionPhrase_named_sector)
  from k have ks: "k = 1 \<or> k = 2 \<or> k = 3 \<or> k = 4 \<or> k = 5 \<or> k = 6 \<or> k = 7"
    by arith
  show "getDirectionPhrase (sectorLower k) = compoundPhrases ! (k - 1)"
    using ks
    by (elim disjE) (simp_all add: getDirectionPhrase_def compoundPhrases_def sectorLower_def)
  show "getDirectionPhrase_named (sectorLower k) = namedPhrases ! (k - 1)"
    using ks
    by (elim disjE)
      (simp_all add: getDirectionPhrase_named_def namedPhrases_def sectorLower_def)
qed

theorem sector_boundary_rule_witness:
  "getDirectionPhrase 350 = [''North''] \<and> getDirectionPhrase_named 22.5 = [''North''] \<and>
   getDirectionPhrase 67.5 = [''between'', ''North'', ''and'', ''East''] \<and>
   getDirectionPhrase_named 67.5 = [''NorthEast''] \<and>
   getDirectionPhrase (sectorLower 2) = [''between'', ''North'', ''and'', ''East''] \<and>
   getDirectionPhrase_named (sectorUpper 2) = [''East'']"
proof -
  note r = sector_boundary_rule
  have n: "getDirectionPhrase 350 = [''North'']" "getDirectionPhrase_named 22.5 = [''North'']"
    using r by simp_all
  have "(1::nat) \<le> 1 \<and> (1::nat) \<le> 7 \<and> sectorLower 1 < 67.5 \<and> 67.5 \<le> sectorUpper 1"
    by (simp add: sectorLower_def sectorUpper_def)
  with r have s: "getDirectionPhrase 67.5 = compoundPhrases ! 1"
    "getDirectionPhrase_named 67.5 = namedPhrases ! 1"
    by blast+
  have "(1::nat) \<le> 2 \<and> (2::nat) \<le> 7" by simp
  with r have e: "getDirectionPhrase (sectorLower 2) = compoundPhrases ! (2 - 1)"
    "getDirectionPhrase_named (sectorUpper 2) = namedPhrases ! 2"
    by blast+
  show ?thesis
    using n s e by (simp add: compoundPhrases_def namedPhrases_def)
qed

lemma sector_index:
  obtains i where "i < 8" "sectorBranches b ! i" "length (filter id (sectorBranches b)) = 1"
    "getDirectionPhrase b = compoundPhrases ! i" "getDirectionPhrase_named b = namedPhrases ! i"
proof -
  note defs = sectorBranches_def getDirectionPhrase_def getDirectionPhrase_named_def
    compoundPhrases_def namedPhrases_def
  consider "b \<le> 22.5" | "22.5 < b" "b \<le> 67.5" | "67.5 < b" "b \<le> 112.5"
    | "112.5 < b" "b \<le> 157.5" | "157.5 < b" "b \<le> 202.5" | "202.5 < b" "b \<le> 247.5"
    | "247.5 < b" "b \<le> 292.5" | "292.5 < b" "b \<le> 337.5" | "337.5 < b"
    by linarith
  then show ?thesis
  proof cases
    case 1 then show ?thesis by (intro that [of 0]) (simp_all add: defs)
  next
    case 2 then show ?thesis by (intro that [of 1]) (simp_all add: defs)
  next
    case 3 then show ?thesis by (intro that [of 2]) (simp_all add: defs)
  next
    case 4 then show ?thesis by (intro that [of 3]) (simp_all add: defs)
  next
    case 5 then show ?thesis by (intro that [of 4]) (simp_all add: defs)
  next
    case 6 then show ?thesis by (intro that [of 5]) (simp_all add: defs)
  next
    case 7 then show ?thesis by (intro that [of 6]) (simp_all add: defs)
  next
    case 8 then show ?thesis by (intro that [of 7]) (simp_all add: defs)
  next
    case 9 then show ?thesis by (intro that [of 0]) (simp_all add: defs)
  qed
qed

lemma phrases_nonempty:
  assumes "i < 8"
  shows "compoundPhrases ! i \<noteq> []" "namedPhrases ! i \<noteq> []"
proof -
  from assms have "i = 0 \<or> i = 1 \<or> i = 2 \<or> i = 3 \<or> i = 4 \<or> i = 5 \<or> i = 6 \<or> i = 7"
    by arith
  then show "compoundPhrases ! i \<noteq> []" "namedPhrases ! i \<noteq> []"
    by (elim disjE; simp add: compoundPhrases_def namedPhrases_def)+
qed

lemma getDirectionPhrase_nonempty: "getDirectionPhrase b \<noteq> []"
  using sector_index [of b] phrases_nonempty by metis

lemma getDirectionPhrase_named_single: "\<exists>t. getDirectionPhrase_named b = [t]"
  by (simp add: getDirectionPhrase_named_def)

text \<open>
  C5 (confirmed). For every bearing in \<open>[0, 360)\<close> exactly one of the eight branch
  conditions holds, the classifier returns the phrase of that branch, and the phrase is not
  empty: the final \<open>return []\<close> is not reached. Both policies.
\<close>

theorem getDirectionPhrase_total:
  assumes "0 \<le> b" "b < 360"
  shows "getDirectionPhrase b \<noteq> [] \<and> getDirectionPhrase_named b \<noteq> [] \<and>
         length (filter id (sectorBranches b)) = 1 \<and>
         (\<exists>i < 8. sectorBranches b ! i \<and>
            getDirectionPhrase b = compoundPhrases ! i \<and>
            getDirectionPhrase_named b = namedPhrases ! i)"
proof -
  obtain i where i: "i < 8" "sectorBranches b ! i"
    "length (filter id (sectorBranches b)) = 1"
    "getDirectionPhrase b = compoundPhrases ! i" "getDirectionPhrase_named b = namedPhrases ! i"
    by (rule sector_index)
  from i(1,4,5) have "getDirectionPhrase b \<noteq> []" "getDirectionPhrase_named b \<noteq> []"
    by (simp_all add: phrases_nonempty)
  with i show ?thesis by blast
qed

theorem getDirectionPhrase_total_witness:
  "(0::real) \<le> 45 \<and> (45::real) < 360 \<and>
   getDirectionPhrase 45 \<noteq> [] \<and> getDirectionPhrase_named 45 \<noteq> [] \<and>
   length (filter id (sectorBranches 45)) = 1"
  using getDirectionPhrase_total [of 45] by simp

subsection \<open>A poll answered at once\<close>

lemma fetchRealPlaneData_poll:
  "fetchRealPlaneData s response =
     (case userLocation s of
        None \<Rightarrow> s
      | Some userLoc \<Rightarrow>
          let s1 = s\<lparr>statusMessage := ''Scanning the skies for live data...''\<rparr> in
          (case response of
             Inl e \<Rightarrow> s1\<lparr>statusMessage := ''Error connecting to server. Is it running?''\<rparr>
           | Inr planes \<Rightarrow>
               (case scanPlanes userLoc planes of
                  (closestPlaneForNotification, closestPlaneForCompass, minDistance) \<Rightarrow>
                    let s2 = (case closestPlaneForCompass of
                                None \<Rightarrow> s1
                              | Some c \<Rightarrow>
                                  s1\<lparr>bearing := calculateBearing (fst userLoc) (snd userLoc)
                                                  (lat c) (lon c)\<rparr>)
                    in (case closestPlaneForNotification of
                          Some (p, altitudeFt) \<Rightarrow>
                            if (case detectedPlane s of
                                  None \<Rightarrow> True
                                | Some d \<Rightarrow> icao24 (sighting d) \<noteq> icao24 p)
                            then playNotificationSound
                                   (s2\<lparr>detectedPlane :=
                                         Some \<lparr>sighting = p, altitude_ft = altitudeFt,
                                               isMock = False\<rparr>\<rparr>)
                            else s2
                        | None \<Rightarrow> s2\<lparr>detectedPlane := None\<rparr>))))"
  by (simp add: fetchRealPlaneData_def fetchResolved_def fetchIssued_def Let_def
      split: option.split sum.split prod.split)

lemma fetchRealPlaneData_2_poll:
  "fetchRealPlaneData_2 s response =
     (case userLocation_2 s of
        None \<Rightarrow> s
      | Some userLoc \<Rightarrow>
          let s1 = s\<lparr>statusMessage_2 := ''Scanning the skies to find your happiness...''\<rparr> in
          (case response of
             Inl e \<Rightarrow> s1\<lparr>statusMessage_2 := ''Error connecting to server. Is it running?''\<rparr>
           | Inr planes \<Rightarrow>
               (case scanPlanes userLoc planes of
                  (closestPlaneForNotification, closestPlaneForCompass, minDistance) \<Rightarrow>
                    let s2 = (case closestPlaneForCompass of
                                None \<Rightarrow> s1
                              | Some c \<Rightarrow>
                                  s1\<lparr>bearing_2 := calculateBearing (fst userLoc) (snd userLoc)
                                                    (lat c) (lon c)\<rparr>)
                    in (case closestPlaneForNotification of
                          Some (p, altitudeFt) \<Rightarrow>
                            if (case detectedPlane_2 s of
                                  None \<Rightarrow> True
                                | Some d \<Rightarrow> icao24 (fst d) \<noteq> icao24 p)
                            then s2\<lparr>detectedPlane_2 := Some (p, altitudeFt),
                                    notificationPlays_2 := Suc (notificationPlays_2 s)\<rparr>
                            else s2
                        | None \<Rightarrow> s2\<lparr>detectedPlane_2 := None\<rparr>))))"
  by (simp add: fetchRealPlaneData_2_def fetchResolved_2_def fetchIssued_2_def Let_def
      split: option.split sum.split prod.split)

subsection \<open>The scan of one batch of sightings\<close>

lemma scanPlanes_Nil: "scanPlanes u [] = (None, None, None)"
  by (simp add: scanPlanes_def)

lemma scanPlanes_snoc: "scanPlanes u (ps @ [p]) = scanPlane u (scanPlanes u ps) p"
  by (simp add: scanPlanes_def)

lemma scanPlanes_single: "scanPlanes u [p] = scanPlane u (None, None, None) p"
  by (simp add: scanPlanes_def)

lemma scanPlane_notification:
  "fst (scanPlane u acc p) =
     (if qualifies u p then Some (p, altitude_m p * 3.28084) else fst acc)"
  by (cases acc) (simp add: scanPlane_def qualifies_def distanceTo_def Let_def)

lemma scanPlane_compass:
  "snd (scanPlane u acc p) =
     (if (case snd (snd acc) of None \<Rightarrow> True | Some m \<Rightarrow> distanceTo u p < m)
      then (Some p, Some (distanceTo u p)) else snd acc)"
  unfolding distanceTo_def by (cases acc) (simp add: scanPlane_def Let_def)

lemma notificationCandidate_last:
  "notificationCandidate u ps =
     (if filter (qualifies u) ps = [] then None
      else Some (last (filter (qualifies u) ps),
                 altitude_m (last (filter (qualifies u) ps)) * 3.28084))"
proof (induction ps rule: rev_induct)
  case Nil
  show ?case by (simp add: notificationCandidate_def scanPlanes_Nil)
next
  case (snoc p ps)
  then show ?case
    by (simp add: notificationCandidate_def scanPlanes_snoc scanPlane_notification)
qed

lemma notificationCandidate_None:
  "notificationCandidate u ps = None \<longleftrightarrow> (\<forall>p \<in> set ps. \<not> qualifies u p)"
  by (simp add: notificationCandidate_last filter_empty_conv)

lemma compass_minimum:
  assumes "ps \<noteq> []"
  shows "\<exists>p \<in> set ps. snd (scanPlanes u ps) = (Some p, Some (distanceTo u p)) \<and>
           (\<forall>q \<in> set ps. distanceTo u p \<le> distanceTo u q)"
  using assms
proof (induction ps rule: rev_induct)
  case Nil
  then show ?case by simp
next
  case (snoc x xs)
  show ?case
  proof (cases "xs = []")
    case True
    then show ?thesis
      by (simp add: scanPlanes_single scanPlane_compass)
  next
    case False
    with snoc.IH obtain p where p: "p \<in> set xs"
      "snd (scanPlanes u xs) = (Some p, Some (distanceTo u p))"
      "\<forall>q \<in> set xs. distanceTo u p \<le> distanceTo u q"
      by blast
    show ?thesis
    proof (cases "distanceTo u x < distanceTo u p")
      case True
      have "snd (scanPlanes u (xs @ [x])) = (Some x, Some (distanceTo u x))"
        using p(2) True by (simp add: scanPlanes_snoc scanPlane_compass)
      moreover have "\<forall>q \<in> set (xs @ [x]). distanceTo u x \<le> distanceTo u q"
        using p(3) True by fastforce
      ultimately show ?thesis by simp
    next
      case False
      have "snd (scanPlanes u (xs @ [x])) = (Some p, Some (distanceTo u p))"
        using p(2) False by (simp add: scanPlanes_snoc scanPlane_compass)
      moreover have "\<forall>q \<in> set (xs @ [x]). distanceTo u p \<le> distanceTo u q"
        using p(3) False by fastforce
      ultimately show ?thesis using p(1) by auto
    qed
  qed
qed

lemma compassTarget_Nil: "compassTarget u [] = None"
  by (simp add: compassTarget_def scanPlanes_Nil)

lemma fetch_bearing:
  assumes "userLocation s = Some u"
  shows "bearing (fetchRealPlaneData s (Inr ps)) =
     (case compassTarget u ps of
        None \<Rightarrow> bearing s
      | Some c \<Rightarrow> calculateBearing (fst u) (snd u) (lat c) (lon c))"
  using assms
  by (cases "scanPlanes u ps")
    (simp add: fetchRealPlaneData_poll compassTarget_def playNotificationSound_def Let_def
      split: option.split prod.split)

lemma fetch_detected:
  assumes "userLocation s = Some u"
  shows "detectedPlane (fetchRealPlaneData s (Inr ps)) =
     (case notificationCandidate u ps of
        None \<Rightarrow> None
      | Some (p, a) \<Rightarrow>
          (case detectedPlane s of
             None \<Rightarrow> Some \<lparr>sighting = p, altitude_ft = a, isMock = False\<rparr>
           | Some d \<Rightarrow> if icao24 (sighting d) \<noteq> icao24 p
                       then Some \<lparr>sighting = p, altitude_ft = a, isMock = False\<rparr>
                       else Some d))"
  using assms
  by (cases "scanPlanes u ps")
    (simp add: fetchRealPlaneData_poll notificationCandidate_def playNotificationSound_def Let_def
      split: option.split prod.split)

lemma fetch_plays:
  assumes "userLocation s = Some u"
  shows "notificationPlays (fetchRealPlaneData s (Inr ps)) =
     (case notificationCandidate u ps of
        None \<Rightarrow> notificationPlays s
      | Some (p, a) \<Rightarrow>
          (case detectedPlane s of
             None \<Rightarrow> Suc (notificationPlays s)
           | Some d \<Rightarrow> if icao24 (sighting d) \<noteq> icao24 p
                       then Suc (notificationPlays s) else notificationPlays s))"
  using assms
  by (cases "scanPlanes u ps")
    (simp add: fetchRealPlaneData_poll notificationCandidate_def playNotificationSound_def Let_def
      split: option.split prod.split)

lemma fetch_userLocation:
  "userLocation (fetchRealPlaneData s r) = userLocation s"
  by (cases "userLocation s"; cases r)
    (simp_all add: fetchRealPlaneData_poll playNotificationSound_def Let_def
      split: option.split prod.split)

subsection \<open>The example inputs\<close>

lemma trackingAt_fields:
  "userLocation (trackingAt u) = Some u" "detectedPlane (trackingAt u) = None"
  "notificationPlays (trackingAt u) = 0" "isTracking (trackingAt u)"
  "bearing (trackingAt u) = 0" "scanningInterval (trackingAt u)"
  "trackingInterval (trackingAt u)"
  by (simp_all add: trackingAt_def step_def commit_def handleStartStopClick_def
      getLocation_def stopAllAudio_def locationFound_def initial_def trackingDeps_def
      mockDeps_def scanningDeps_def Let_def)

lemma distanceTo_near: "distanceTo exampleUser nearPlane = 0"
  by (simp add: distanceTo_def exampleUser_def nearPlane_def calculateDistance_same)

lemma distanceTo_far: "distanceTo exampleUser farPlane = 6371 * (pi / 1800)"
  using calculateDistance_meridian [of "1/10" 0 0]
  by (simp add: distanceTo_def exampleUser_def farPlane_def)

lemma distanceTo_far_bounds: "0 < distanceTo exampleUser farPlane" "distanceTo exampleUser farPlane < 30"
  using pi_gt_zero pi_less_4 by (simp_all add: distanceTo_far)

lemma qualifies_near: "qualifies exampleUser nearPlane"
proof -
  have "altitude_m nearPlane = 4000" by (simp add: nearPlane_def)
  then show ?thesis
    by (simp add: qualifies_def distanceTo_near NOTIFICATION_RADIUS_KM_def
        MINIMUM_ALTITUDE_FT_def)
qed

lemma qualifies_far: "qualifies exampleUser farPlane"
proof -
  have "altitude_m farPlane = 4000" by (simp add: farPlane_def)
  then show ?thesis
    using distanceTo_far_bounds
    by (simp add: qualifies_def NOTIFICATION_RADIUS_KM_def MINIMUM_ALTITUDE_FT_def)
qed

lemma not_qualifies_low: "\<not> qualifies exampleUser lowPlane"
proof -
  have "altitude_m lowPlane = 100" by (simp add: lowPlane_def)
  then show ?thesis
    by (simp add: qualifies_def MINIMUM_ALTITUDE_FT_def)
qed

subsection \<open>Decimal digits\<close>

lemma digits_value: "foldl (\<lambda>a c. 10 * a + (of_char c - 48)) 0 (digits n) = n"
proof (induction n rule: digits.induct)
  case (1 n)
  show ?case
  proof (cases "n < 10")
    case True
    then show ?thesis
      by (subst digits.simps) (simp add: digitChar_def)
  next
    case False
    have "n mod 10 < 10" by simp
    then have "of_char (digitChar (n mod 10)) = 48 + n mod 10"
      unfolding digitChar_def by (simp del: mod_less_divisor)
    with False 1 show ?thesis
      by (subst digits.simps) simp
  qed
qed

lemma digits_inject: "digits m = digits n \<longleftrightarrow> m = n"
  by (metis digits_value)

lemma mock_identity_inject:
  "icao24 (mockPlane u t r) = icao24 (mockPlane u' t' r') \<longleftrightarrow> t = t'"
  by (simp add: mockPlane_def digits_inject)

lemma mock_identity_App_inject:
  "icao24_App (mockPlane_App u t r) = icao24_App (mockPlane_App u' t' r') \<longleftrightarrow> t = t'"
  by (simp add: mockPlane_App_def digits_inject)

subsection \<open>One synthetic cycle\<close>

lemma mockFetch_detected:
  assumes "userLocation s = Some u"
  shows "detectedPlane (mockFetchPlaneData s now r) =
     (if qualifies u (mockPlane u now r)
      then (if notifiedId s = Some (icao24 (mockPlane u now r)) then detectedPlane s
            else Some \<lparr>sighting = mockPlane u now r,
                       altitude_ft = altitude_m (mockPlane u now r) * 3.28084,
                       isMock = True\<rparr>)
      else None)"
  using assms
  by (auto simp add: mockFetchPlaneData_def qualifies_def distanceTo_def notifiedId_def
      playNotificationSound_def Let_def split: option.split)

lemma mockFetch_plays:
  assumes "userLocation s = Some u"
  shows "notificationPlays (mockFetchPlaneData s now r) =
     (if qualifies u (mockPlane u now r) \<and> notifiedId s \<noteq> Some (icao24 (mockPlane u now r))
      then Suc (notificationPlays s) else notificationPlays s)"
  using assms
  by (auto simp add: mockFetchPlaneData_def qualifies_def distanceTo_def notifiedId_def
      playNotificationSound_def Let_def split: option.split)

lemma mockFetch_userLocation: "userLocation (mockFetchPlaneData s now r) = userLocation s"
  by (cases "userLocation s")
    (simp_all add: mockFetchPlaneData_def playNotificationSound_def Let_def)

lemma mockFetch_App_detected:
  assumes "userLocation_App s = Some u"
  shows "detectedPlane_App (mockFetchPlaneData_App s now r) =
     (if qualifies_App u (mockPlane_App u now r)
      then (if map_option icao24_App (detectedPlane_App s)
                 = Some (icao24_App (mockPlane_App u now r))
            then detectedPlane_App s
            else Some (mockPlane_App u now r))
      else None)"
  using assms
  by (auto simp add: mockFetchPlaneData_App_def qualifies_App_def Let_def split: option.split)

lemma mockFetch_App_plays:
  assumes "userLocation_App s = Some u"
  shows "notificationPlays_App (mockFetchPlaneData_App s now r) =
     (if qualifies_App u (mockPlane_App u now r) \<and>
         map_option icao24_App (detectedPlane_App s) \<noteq> Some (icao24_App (mockPlane_App u now r))
      then Suc (notificationPlays_App s) else notificationPlays_App s)"
  using assms
  by (auto simp add: mockFetchPlaneData_App_def qualifies_App_def Let_def split: option.split)

lemma mockFetch_App_userLocation:
  "userLocation_App (mockFetchPlaneData_App s now r) = userLocation_App s"
  by (cases "userLocation_App s") (simp_all add: mockFetchPlaneData_App_def Let_def)

lemma qualifies_centred: "qualifies u (mockPlane u now centredDraws)"
proof -
  have "lat (mockPlane u now centredDraws) = fst u" "lon (mockPlane u now centredDraws) = snd u"
    "altitude_m (mockPlane u now centredDraws) * 3.28084 = 20000"
    by (simp_all add: mockPlane_def centredDraws_def MINIMUM_ALTITUDE_FT_def)
  then show ?thesis
    by (simp add: qualifies_def distanceTo_def calculateDistance_same
        NOTIFICATION_RADIUS_KM_def MINIMUM_ALTITUDE_FT_def)
qed

lemma qualifies_App_centred: "qualifies_App u (mockPlane_App u now centredDraws)"
proof -
  have "lat_App (mockPlane_App u now centredDraws) = fst u"
    "lon_App (mockPlane_App u now centredDraws) = snd u"
    "altitude_App (mockPlane_App u now centredDraws) = 20000"
    by (simp_all add: mockPlane_App_def centredDraws_def MINIMUM_ALTITUDE_FT_def)
  then show ?thesis
    by (simp add: qualifies_App_def calculateDistance_same
        NOTIFICATION_RADIUS_KM_App_def MINIMUM_ALTITUDE_FT_def)
qed

lemma mockingAt_fields:
  "userLocation (mockingAt u) = Some u" "detectedPlane (mockingAt u) = None"
  "notificationPlays (mockingAt u) = 0" "isMockMode (mockingAt u)"
  by (simp_all add: mockingAt_def step_def commit_def handleMockModeClick_def
      getLocation_def stopAllAudio_def locationFound_def initial_def trackingDeps_def
      mockDeps_def scanningDeps_def Let_def)

lemma mockingAt_App_fields:
  "userLocation_App (mockingAt_App u) = Some u" "detectedPlane_App (mockingAt_App u) = None"
  "notificationPlays_App (mockingAt_App u) = 0"
  by (simp_all add: mockingAt_App_def)

subsection \<open>The second file of part_000 on the example inputs\<close>

lemma fetch_2_detected:
  assumes "userLocation_2 s = Some u"
  shows "detectedPlane_2 (fetchRealPlaneData_2 s (Inr ps)) =
     (case notificationCandidate u ps of
        None \<Rightarrow> None
      | Some (p, a) \<Rightarrow>
          (case detectedPlane_2 s of
             None \<Rightarrow> Some (p, a)
           | Some d \<Rightarrow> if icao24 (fst d) \<noteq> icao24 p then Some (p, a) else Some d))"
  using assms
  by (cases "scanPlanes u ps")
    (simp add: fetchRealPlaneData_2_poll notificationCandidate_def Let_def
      split: option.split prod.split)

lemma commit_2_fields:
  "isTracking_2 (commit_2 old new) = isTracking_2 new"
  "detectedPlane_2 (commit_2 old new) = detectedPlane_2 new"
  "userLocation_2 (commit_2 old new) = userLocation_2 new"
  "bearing_2 (commit_2 old new) = bearing_2 new"
  "isSpeaking_2 (commit_2 old new) = isSpeaking_2 new"
  "sounding_2 (commit_2 old new) = sounding_2 new"
  "audioQueue_2 (commit_2 old new) = audioQueue_2 new"
  by (simp_all add: commit_2_def Let_def)

lemma trackingAt_2_fields:
  "reachable_2 (trackingAt_2 u)" "isTracking_2 (trackingAt_2 u)"
  "detectedPlane_2 (trackingAt_2 u) = None" "userLocation_2 (trackingAt_2 u) = Some u"
  "\<not> isSpeaking_2 (trackingAt_2 u)" "sounding_2 (trackingAt_2 u) = {}"
proof -
  show "reachable_2 (trackingAt_2 u)"
    unfolding trackingAt_2_def by (intro reachable_2_step reachable_2_initial)
  show "isTracking_2 (trackingAt_2 u)" "detectedPlane_2 (trackingAt_2 u) = None"
    "userLocation_2 (trackingAt_2 u) = Some u"
    "\<not> isSpeaking_2 (trackingAt_2 u)" "sounding_2 (trackingAt_2 u) = {}"
    by (simp_all add: trackingAt_2_def step_2_def commit_2_fields handleStartStopClick_2_def
        getLocation_2_def locationFound_2_def initial_2_def Let_def)
qed

lemma detectedAt_2_far:
  "reachable_2 (detectedAt_2 exampleUser [farPlane])"
  "detectedPlane_2 (detectedAt_2 exampleUser [farPlane]) =
     Some (farPlane, altitude_m farPlane * 3.28084)"
  "isTracking_2 (detectedAt_2 exampleUser [farPlane])"
  "userLocation_2 (detectedAt_2 exampleUser [farPlane]) = Some exampleUser"
  "\<not> isSpeaking_2 (detectedAt_2 exampleUser [farPlane])"
  "sounding_2 (detectedAt_2 exampleUser [farPlane]) = {}"
proof -
  have c: "notificationCandidate exampleUser [farPlane] =
      Some (farPlane, altitude_m farPlane * 3.28084)"
    by (simp add: notificationCandidate_last qualifies_far)
  show "reachable_2 (detectedAt_2 exampleUser [farPlane])"
    unfolding detectedAt_2_def by (intro reachable_2_step trackingAt_2_fields)
  show "detectedPlane_2 (detectedAt_2 exampleUser [farPlane]) =
     Some (farPlane, altitude_m farPlane * 3.28084)"
    by (simp add: detectedAt_2_def step_2_def commit_2_fields
        fetch_2_detected [OF trackingAt_2_fields(4)] c trackingAt_2_fields)
  show "isTracking_2 (detectedAt_2 exampleUser [farPlane])"
    using trackingAt_2_fields(2) [of exampleUser]
    by (cases "scanPlanes exampleUser [farPlane]")
      (simp add: detectedAt_2_def step_2_def commit_2_fields fetchRealPlaneData_2_poll
        trackingAt_2_fields Let_def split: option.split prod.split)
  show "userLocation_2 (detectedAt_2 exampleUser [farPlane]) = Some exampleUser"
    by (cases "scanPlanes exampleUser [farPlane]")
      (simp add: detectedAt_2_def step_2_def commit_2_fields fetchRealPlaneData_2_poll
        trackingAt_2_fields Let_def split: option.split prod.split)
  show "\<not> isSpeaking_2 (detectedAt_2 exampleUser [farPlane])"
    "sounding_2 (detectedAt_2 exampleUser [farPlane]) = {}"
    using trackingAt_2_fields(5,6) [of exampleUser]
    by (cases "scanPlanes exampleUser [farPlane]";
        simp add: detectedAt_2_def step_2_def commit_2_fields fetchRealPlaneData_2_poll
          trackingAt_2_fields Let_def split: option.split prod.split)+
qed

lemma fetch_2_bearing:
  assumes "userLocation_2 s = Some u"
  shows "bearing_2 (fetchRealPlaneData_2 s (Inr ps)) =
     (case compassTarget u ps of
        None \<Rightarrow> bearing_2 s
      | Some c \<Rightarrow> calculateBearing (fst u) (snd u) (lat c) (lon c))"
  using assms
  by (cases "scanPlanes u ps")
    (simp add: fetchRealPlaneData_2_poll compassTarget_def Let_def
      split: option.split prod.split)

lemma candidateId_only:
  assumes "\<exists>p \<in> set b. qualifies u p" "\<forall>p \<in> set b. qualifies u p \<longrightarrow> icao24 p = X"
  shows "candidateId u b = Some X"
proof -
  from assms(1) have ne: "filter (qualifies u) b \<noteq> []"
    by (simp add: filter_empty_conv)
  then have "last (filter (qualifies u) b) \<in> set (filter (qualifies u) b)"
    by (rule last_in_set)
  with assms(2) have "icao24 (last (filter (qualifies u) b)) = X" by simp
  with ne show ?thesis
    by (simp add: candidateId_def notificationCandidate_last)
qed

lemma candidateId_none:
  "(\<forall>p \<in> set b. \<not> qualifies u p) \<Longrightarrow> candidateId u b = None"
  by (simp add: candidateId_def notificationCandidate_None)

subsection \<open>The detection engine\<close>

text \<open>
  C1 (defect in the code). The claim asks for the qualifying sighting of minimum distance.
  The loop of \<open>fetchRealPlaneData\<close> keeps the minimum only for
  \<open>closestPlaneForCompass\<close>; \<open>closestPlaneForNotification\<close> is overwritten by every
  qualifying sighting, so the candidate is the last qualifying sighting of the batch
  (lemma \<open>notificationCandidate_last\<close>). With the user at \<open>(0, 0)\<close>, a first sighting
  at distance 0 and a second one 0.1 degrees north (about 11.1 km), both above the altitude
  threshold, the second, farther one is selected and notified, in both files of part_000
  (they run the same loop). That no sighting qualifying gives no candidate holds (lemma
  \<open>notificationCandidate_None\<close>).
\<close>

theorem notification_candidate_not_nearest:
  "qualifies exampleUser nearPlane \<and> qualifies exampleUser farPlane \<and>
   distanceTo exampleUser nearPlane < distanceTo exampleUser farPlane \<and>
   notificationCandidate exampleUser [nearPlane, farPlane] =
     Some (farPlane, altitude_m farPlane * 3.28084) \<and>
   map_option sighting
     (detectedPlane (fetchRealPlaneData (trackingAt exampleUser) (Inr [nearPlane, farPlane])))
     = Some farPlane \<and>
   map_option fst
     (detectedPlane_2
        (fetchRealPlaneData_2 (trackingAt_2 exampleUser) (Inr [nearPlane, farPlane])))
     = Some farPlane \<and>
   nearPlane \<noteq> farPlane"
proof -
  have c: "notificationCandidate exampleUser [nearPlane, farPlane] =
      Some (farPlane, altitude_m farPlane * 3.28084)"
    by (simp add: notificationCandidate_last qualifies_near qualifies_far)
  have u: "userLocation (trackingAt exampleUser) = Some exampleUser"
    by (simp add: trackingAt_fields)
  have d: "detectedPlane (trackingAt exampleUser) = None"
    by (simp add: trackingAt_fields)
  have "map_option sighting
     (detectedPlane (fetchRealPlaneData (trackingAt exampleUser) (Inr [nearPlane, farPlane])))
     = Some farPlane"
    by (simp add: fetch_detected [OF u] c d)
  moreover have "map_option fst
     (detectedPlane_2
        (fetchRealPlaneData_2 (trackingAt_2 exampleUser) (Inr [nearPlane, farPlane])))
     = Some farPlane"
    by (simp add: fetch_2_detected [OF trackingAt_2_fields(4)] c trackingAt_2_fields(3))
  moreover have "nearPlane \<noteq> farPlane"
    by (simp add: nearPlane_def farPlane_def)
  moreover have "distanceTo exampleUser nearPlane < distanceTo exampleUser farPlane"
    using distanceTo_far_bounds(1) by (simp add: distanceTo_near)
  ultimately show ?thesis
    using c qualifies_near qualifies_far by blast
qed

text \<open>
  C3 (confirmed). In a cycle whose batch is not empty the compass target is a sighting of the
  batch whose distance from the user is minimal among all sightings of the batch, whether
  or not it meets the admission thresholds, and the Bearing becomes the bearing from the
  user to it. In a cycle whose batch is empty there is no compass target, the cycle leaves
  the Bearing as it was, and no aircraft is notified, so the idle rotation goes on. Both
  files of part_000.
\<close>

theorem compass_target_nearest:
  assumes "userLocation s = Some u" "userLocation_2 s2 = Some u"
  shows "(planes \<noteq> [] \<longrightarrow>
           (\<exists>p \<in> set planes. (\<forall>q \<in> set planes. distanceTo u p \<le> distanceTo u q) \<and>
              compassTarget u planes = Some p \<and>
              bearing (fetchRealPlaneData s (Inr planes)) =
                calculateBearing (fst u) (snd u) (lat p) (lon p) \<and>
              bearing_2 (fetchRealPlaneData_2 s2 (Inr planes)) =
                calculateBearing (fst u) (snd u) (lat p) (lon p))) \<and>
         (planes = [] \<longrightarrow>
            compassTarget u planes = None \<and>
            bearing (fetchRealPlaneData s (Inr planes)) = bearing s \<and>
            detectedPlane (fetchRealPlaneData s (Inr planes)) = None \<and>
            bearing_2 (fetchRealPlaneData_2 s2 (Inr planes)) = bearing_2 s2 \<and>
            detectedPlane_2 (fetchRealPlaneData_2 s2 (Inr planes)) = None)"
proof (intro conjI impI)
  assume "planes \<noteq> []"
  then obtain p where p: "p \<in> set planes"
    "snd (scanPlanes u planes) = (Some p, Some (distanceTo u p))"
    "\<forall>q \<in> set planes. distanceTo u p \<le> distanceTo u q"
    using compass_minimum by blast
  from p(2) have t: "compassTarget u planes = Some p"
    by (simp add: compassTarget_def)
  then have "bearing (fetchRealPlaneData s (Inr planes)) =
      calculateBearing (fst u) (snd u) (lat p) (lon p)"
    "bearing_2 (fetchRealPlaneData_2 s2 (Inr planes)) =
      calculateBearing (fst u) (snd u) (lat p) (lon p)"
    by (simp_all add: fetch_bearing [OF assms(1)] fetch_2_bearing [OF assms(2)])
  with p(1,3) t
  show "\<exists>p \<in> set planes. (\<forall>q \<in> set planes. distanceTo u p \<le> distanceTo u q) \<and>
      compassTarget u planes = Some p \<and>
      bearing (fetchRealPlaneData s (Inr planes)) =
        calculateBearing (fst u) (snd u) (lat p) (lon p) \<and>
      bearing_2 (fetchRealPlaneData_2 s2 (Inr planes)) =
        calculateBearing (fst u) (snd u) (lat p) (lon p)"
    by blast
next
  assume e: "planes = []"
  show "compassTarget u planes = None" using e by (simp add: compassTarget_Nil)
  show "bearing (fetchRealPlaneData s (Inr planes)) = bearing s"
    using e by (simp add: fetch_bearing [OF assms(1)] compassTarget_Nil)
  show "detectedPlane (fetchRealPlaneData s (Inr planes)) = None"
    using e by (simp add: fetch_detected [OF assms(1)] notificationCandidate_last)
  show "bearing_2 (fetchRealPlaneData_2 s2 (Inr planes)) = bearing_2 s2"
    using e by (simp add: fetch_2_bearing [OF assms(2)] compassTarget_Nil)
  show "detectedPlane_2 (fetchRealPlaneData_2 s2 (Inr planes)) = None"
    using e by (simp add: fetch_2_detected [OF assms(2)] notificationCandidate_last)
qed

theorem compass_target_nearest_witness:
  "userLocation (trackingAt exampleUser) = Some exampleUser \<and>
   \<not> qualifies exampleUser lowPlane \<and>
   compassTarget exampleUser [farPlane, lowPlane] = Some lowPlane \<and>
   bearing (fetchRealPlaneData (trackingAt exampleUser) (Inr [farPlane, lowPlane])) =
     calculateBearing 0 0 (lat lowPlane) (lon lowPlane) \<and>
   bearing (fetchRealPlaneData (trackingAt exampleUser) (Inr [])) =
     bearing (trackingAt exampleUser)"
proof -
  have u: "userLocation (trackingAt exampleUser) = Some exampleUser"
    by (simp add: trackingAt_fields)
  note t = compass_target_nearest [OF u trackingAt_2_fields(4)]
  have low: "distanceTo exampleUser lowPlane = 0"
    by (simp add: distanceTo_def exampleUser_def lowPlane_def calculateDistance_same)
  from t [of "[farPlane, lowPlane]"]
  obtain p where p: "p \<in> set [farPlane, lowPlane]"
    "\<forall>q \<in> set [farPlane, lowPlane]. distanceTo exampleUser p \<le> distanceTo exampleUser q"
    "compassTarget exampleUser [farPlane, lowPlane] = Some p"
    "bearing (fetchRealPlaneData (trackingAt exampleUser) (Inr [farPlane, lowPlane])) =
       calculateBearing (fst exampleUser) (snd exampleUser) (lat p) (lon p)"
    by auto
  have "p = lowPlane"
    using p(1,2) distanceTo_far_bounds(1) low by auto
  with p(3,4) have a: "compassTarget exampleUser [farPlane, lowPlane] = Some lowPlane"
    "bearing (fetchRealPlaneData (trackingAt exampleUser) (Inr [farPlane, lowPlane])) =
       calculateBearing 0 0 (lat lowPlane) (lon lowPlane)"
    by (simp_all add: exampleUser_def)
  have "bearing (fetchRealPlaneData (trackingAt exampleUser) (Inr [])) =
     bearing (trackingAt exampleUser)"
    using t [of "[]"] by simp
  with a u not_qualifies_low show ?thesis by blast
qed

text \<open>
  A failed fetch leaves a state from which the next poll behaves as from the state before.
\<close>

lemma fetch_after_failure:
  "fetchRealPlaneData (fetchRealPlaneData s (Inl e)) r = fetchRealPlaneData s r"
proof (cases "userLocation s")
  case None
  then show ?thesis by (simp add: fetchRealPlaneData_poll)
next
  case (Some u)
  show ?thesis
  proof (cases r)
    case (Inl e')
    with Some show ?thesis by (simp add: fetchRealPlaneData_poll)
  next
    case (Inr ps)
    with Some show ?thesis
      by (cases "scanPlanes u ps")
        (simp add: fetchRealPlaneData_poll Let_def split: option.split prod.split)
  qed
qed

lemma step_failure:
  "step s (LiveResponse (Inl e)) = fetchRealPlaneData s (Inl e)"
  by (cases "userLocation s")
    (simp_all add: step_def commit_def fetchRealPlaneData_poll trackingDeps_def mockDeps_def
      scanningDeps_def)

lemma step_2_failure:
  "step_2 s (LiveResponse_2 (Inl e)) = fetchRealPlaneData_2 s (Inl e)"
  by (cases "userLocation_2 s")
    (simp_all add: step_2_def commit_2_def fetchRealPlaneData_2_poll trackingDeps_2_def
      needleDeps_2_def)

text \<open>
  C8 (confirmed). A poll whose fetch fails (network error, backend status, unreadable body)
  changes nothing but the status string: Bearing, NotifiedAircraft, the signal count, the
  tracking flag, the user position and the poll timer keep their values, no effect runs
  again (no timer is cleared), and the next poll is processed exactly as if the failed one
  had not happened. Both files of part_000.
\<close>

theorem fetch_failure_retains_state:
  "bearing (fetchRealPlaneData s (Inl e)) = bearing s \<and>
   detectedPlane (fetchRealPlaneData s (Inl e)) = detectedPlane s \<and>
   notificationPlays (fetchRealPlaneData s (Inl e)) = notificationPlays s \<and>
   isTracking (fetchRealPlaneData s (Inl e)) = isTracking s \<and>
   userLocation (fetchRealPlaneData s (Inl e)) = userLocation s \<and>
   trackingInterval (fetchRealPlaneData s (Inl e)) = trackingInterval s \<and>
   statusMessage (fetchRealPlaneData s (Inl e)) =
     (if userLocation s = None then statusMessage s
      else ''Error connecting to server. Is it running?'') \<and>
   fetchRealPlaneData (fetchRealPlaneData s (Inl e)) r = fetchRealPlaneData s r \<and>
   step s (LiveResponse (Inl e)) = fetchRealPlaneData s (Inl e) \<and>
   bearing_2 (fetchRealPlaneData_2 s2 (Inl e)) = bearing_2 s2 \<and>
   detectedPlane_2 (fetchRealPlaneData_2 s2 (Inl e)) = detectedPlane_2 s2 \<and>
   notificationPlays_2 (fetchRealPlaneData_2 s2 (Inl e)) = notificationPlays_2 s2 \<and>
   isTracking_2 (fetchRealPlaneData_2 s2 (Inl e)) = isTracking_2 s2 \<and>
   trackingInterval_2 (fetchRealPlaneData_2 s2 (Inl e)) = trackingInterval_2 s2 \<and>
   step_2 s2 (LiveResponse_2 (Inl e)) = fetchRealPlaneData_2 s2 (Inl e)"
proof -
  have "bearing_2 (fetchRealPlaneData_2 s2 (Inl e)) = bearing_2 s2 \<and>
   detectedPlane_2 (fetchRealPlaneData_2 s2 (Inl e)) = detectedPlane_2 s2 \<and>
   notificationPlays_2 (fetchRealPlaneData_2 s2 (Inl e)) = notificationPlays_2 s2 \<and>
   isTracking_2 (fetchRealPlaneData_2 s2 (Inl e)) = isTracking_2 s2 \<and>
   trackingInterval_2 (fetchRealPlaneData_2 s2 (Inl e)) = trackingInterval_2 s2"
    by (cases "userLocation_2 s2") (simp_all add: fetchRealPlaneData_2_poll)
  then show ?thesis
    using fetch_after_failure [of s e r] step_failure [of s e] step_2_failure [of s2 e]
    by (cases "userLocation s") (simp_all add: fetchRealPlaneData_poll)
qed

lemma fetch_notifiedId:
  assumes "userLocation s = Some u"
  shows "notifiedId (fetchRealPlaneData s (Inr ps)) = candidateId u ps"
  by (simp add: notifiedId_def candidateId_def fetch_detected [OF assms]
      split: option.split prod.split)

lemma fetch_plays_id:
  assumes "userLocation s = Some u"
  shows "notificationPlays (fetchRealPlaneData s (Inr ps)) =
     (if candidateId u ps = None \<or> candidateId u ps = notifiedId s
      then notificationPlays s else Suc (notificationPlays s))"
  by (auto simp add: notifiedId_def candidateId_def fetch_plays [OF assms]
      split: option.split prod.split)

lemma polls_append: "polls s (xs @ ys) = polls (polls s xs) ys"
  by (induction xs arbitrary: s) simp_all

lemma polls_userLocation: "userLocation (polls s bs) = userLocation s"
  by (induction bs arbitrary: s) (simp_all add: fetch_userLocation)

lemma polls_same:
  assumes "userLocation s = Some u" "\<forall>b \<in> set bs. candidateId u b = Some X"
    "notifiedId s = Some X"
  shows "notificationPlays (polls s bs) = notificationPlays s \<and> notifiedId (polls s bs) = Some X"
  using assms
proof (induction bs arbitrary: s)
  case Nil
  then show ?case by simp
next
  case (Cons b bs)
  let ?s = "fetchRealPlaneData s (Inr b)"
  have "userLocation ?s = Some u" using Cons.prems(1) by (simp add: fetch_userLocation)
  moreover have "notifiedId ?s = Some X"
    using Cons.prems by (simp add: fetch_notifiedId)
  moreover have "notificationPlays ?s = notificationPlays s"
    using Cons.prems by (simp add: fetch_plays_id)
  ultimately show ?case
    using Cons.IH [of ?s] Cons.prems(2) by simp
qed

lemma polls_enter:
  assumes "userLocation s = Some u" "\<forall>b \<in> set bs. candidateId u b = Some X"
    "notifiedId s \<noteq> Some X" "bs \<noteq> []"
  shows "notificationPlays (polls s bs) = Suc (notificationPlays s) \<and>
         notifiedId (polls s bs) = Some X"
proof -
  from assms(4) obtain b rest where bs: "bs = b # rest" by (cases bs) auto
  let ?s = "fetchRealPlaneData s (Inr b)"
  have "userLocation ?s = Some u" using assms(1) by (simp add: fetch_userLocation)
  moreover have "notifiedId ?s = Some X"
    using assms bs by (simp add: fetch_notifiedId)
  moreover have "notificationPlays ?s = Suc (notificationPlays s)"
    using assms bs by (auto simp add: fetch_plays_id)
  ultimately show ?thesis
    using polls_same [of ?s u rest X] assms(2) bs by simp
qed

lemma polls_none:
  assumes "userLocation s = Some u" "\<forall>b \<in> set bs. candidateId u b = None" "bs \<noteq> []"
  shows "notificationPlays (polls s bs) = notificationPlays s \<and> notifiedId (polls s bs) = None"
  using assms
proof (induction bs arbitrary: s)
  case Nil
  then show ?case by simp
next
  case (Cons b bs)
  let ?s = "fetchRealPlaneData s (Inr b)"
  have u: "userLocation ?s = Some u" using Cons.prems(1) by (simp add: fetch_userLocation)
  have n: "notifiedId ?s = None"
    using Cons.prems by (simp add: fetch_notifiedId)
  have p: "notificationPlays ?s = notificationPlays s"
    using Cons.prems by (simp add: fetch_plays_id)
  show ?case
  proof (cases "bs = []")
    case True
    with n p show ?thesis by simp
  next
    case False
    with Cons.IH [OF u] Cons.prems(2) p show ?thesis by simp
  qed
qed

text \<open>
  C2 (corrected). The component remembers one aircraft, the one under notification, and a
  cycle compares its candidate with that one only. With the user at \<open>(0, 0)\<close> the sighting
  \<open>bbb222\<close> qualifies in three consecutive cycles; in the second one \<open>aaa111\<close> qualifies
  too, is nearer, and is the candidate (by distance and by position in the batch alike).
  The signal fires in each of the three cycles, twice for \<open>bbb222\<close>, which never left
  the qualifying set.
\<close>

theorem qualifying_identity_resignalled:
  "qualifies exampleUser farPlane \<and> qualifies exampleUser nearPlane \<and>
   icao24 farPlane = ''bbb222'' \<and> icao24 nearPlane = ''aaa111'' \<and>
   distanceTo exampleUser nearPlane < distanceTo exampleUser farPlane \<and>
   candidateId exampleUser [farPlane] = Some ''bbb222'' \<and>
   candidateId exampleUser [farPlane, nearPlane] = Some ''aaa111'' \<and>
   notificationPlays (polls (trackingAt exampleUser) [[farPlane]]) = 1 \<and>
   notifiedId (polls (trackingAt exampleUser) [[farPlane]]) = Some ''bbb222'' \<and>
   notificationPlays (polls (trackingAt exampleUser) [[farPlane], [farPlane, nearPlane]]) = 2 \<and>
   notifiedId (polls (trackingAt exampleUser) [[farPlane], [farPlane, nearPlane]])
     = Some ''aaa111'' \<and>
   notificationPlays
     (polls (trackingAt exampleUser) [[farPlane], [farPlane, nearPlane], [farPlane]]) = 3 \<and>
   notifiedId (polls (trackingAt exampleUser) [[farPlane], [farPlane, nearPlane], [farPlane]])
     = Some ''bbb222''"
proof -
  let ?s0 = "trackingAt exampleUser"
  let ?s1 = "fetchRealPlaneData ?s0 (Inr [farPlane])"
  let ?s2 = "fetchRealPlaneData ?s1 (Inr [farPlane, nearPlane])"
  let ?s3 = "fetchRealPlaneData ?s2 (Inr [farPlane])"
  have i: "icao24 farPlane = ''bbb222''" "icao24 nearPlane = ''aaa111''"
    by (simp_all add: farPlane_def nearPlane_def)
  have c1: "candidateId exampleUser [farPlane] = Some ''bbb222''"
    by (simp add: candidateId_def notificationCandidate_last qualifies_far i)
  have c2: "candidateId exampleUser [farPlane, nearPlane] = Some ''aaa111''"
    by (simp add: candidateId_def notificationCandidate_last qualifies_far qualifies_near i)
  have d: "distanceTo exampleUser nearPlane < distanceTo exampleUser farPlane"
    using distanceTo_far_bounds(1) by (simp add: distanceTo_near)
  have u0: "userLocation ?s0 = Some exampleUser" by (simp add: trackingAt_fields)
  have u1: "userLocation ?s1 = Some exampleUser"
    by (simp add: fetch_userLocation trackingAt_fields)
  have u2: "userLocation ?s2 = Some exampleUser"
    by (simp add: fetch_userLocation trackingAt_fields)
  have n0: "notifiedId ?s0 = None" by (simp add: notifiedId_def trackingAt_fields)
  have n1: "notifiedId ?s1 = Some ''bbb222''" by (simp add: fetch_notifiedId [OF u0] c1)
  have n2: "notifiedId ?s2 = Some ''aaa111''" by (simp add: fetch_notifiedId [OF u1] c2)
  have n3: "notifiedId ?s3 = Some ''bbb222''" by (simp add: fetch_notifiedId [OF u2] c1)
  have p1: "notificationPlays ?s1 = 1"
    by (simp add: fetch_plays_id [OF u0] c1 n0 trackingAt_fields)
  have p2: "notificationPlays ?s2 = 2"
    by (simp add: fetch_plays_id [OF u1] c2 n1 p1)
  have p3: "notificationPlays ?s3 = 3"
    by (simp add: fetch_plays_id [OF u2] c1 n2 p2)
  show ?thesis
    using i c1 c2 d n1 n2 n3 p1 p2 p3 qualifies_far qualifies_near by simp
qed

text \<open>
  C2 as amended: for every evaluation cycle that is answered before anything else happens
  to the component, so that the NotifiedAircraft its callback holds is the current one: a
  candidate with the identity of the current NotifiedAircraft changes neither
  NotifiedAircraft nor the signal count; a candidate with another identity (or with no
  NotifiedAircraft) is promoted and the signal fires once; no candidate clears
  NotifiedAircraft. Hence over consecutive such cycles in each of which the candidate the
  loop selects has the identity \<open>X\<close>, starting with \<open>X\<close> not notified, the signal fires
  exactly once; after cycles without a candidate and cycles with \<open>X\<close> again it has fired
  exactly twice. The candidate has the identity \<open>X\<close> whenever some sighting of the batch
  qualifies and every qualifying one has that identity; there is none whenever no sighting
  qualifies. The synthetic poll of App.jsx, which has no \<open>await\<close>, has the same three
  cases on its one sighting.
\<close>

theorem debounce_cycles:
  assumes "userLocation s = Some u"
  shows
    "(\<forall>p a d. notificationCandidate u ps = Some (p, a) \<and> detectedPlane s = Some d \<and>
         icao24 (sighting d) = icao24 p \<longrightarrow>
         detectedPlane (fetchRealPlaneData s (Inr ps)) = detectedPlane s \<and>
         notificationPlays (fetchRealPlaneData s (Inr ps)) = notificationPlays s) \<and>
     (\<forall>p a. notificationCandidate u ps = Some (p, a) \<and> notifiedId s \<noteq> Some (icao24 p) \<longrightarrow>
         detectedPlane (fetchRealPlaneData s (Inr ps)) =
           Some \<lparr>sighting = p, altitude_ft = a, isMock = False\<rparr> \<and>
         notificationPlays (fetchRealPlaneData s (Inr ps)) = Suc (notificationPlays s)) \<and>
     (notificationCandidate u ps = None \<longrightarrow>
         detectedPlane (fetchRealPlaneData s (Inr ps)) = None \<and>
         notificationPlays (fetchRealPlaneData s (Inr ps)) = notificationPlays s) \<and>
     (\<forall>X bs. bs \<noteq> [] \<and> (\<forall>b \<in> set bs. candidateId u b = Some X) \<and> notifiedId s \<noteq> Some X \<longrightarrow>
         notificationPlays (polls s bs) = notificationPlays s + 1) \<and>
     (\<forall>X bs gap bs'. bs \<noteq> [] \<and> (\<forall>b \<in> set bs. candidateId u b = Some X) \<and>
         notifiedId s \<noteq> Some X \<and>
         gap \<noteq> [] \<and> (\<forall>b \<in> set gap. candidateId u b = None) \<and>
         bs' \<noteq> [] \<and> (\<forall>b \<in> set bs'. candidateId u b = Some X) \<longrightarrow>
         notificationPlays (polls s (bs @ gap @ bs')) = notificationPlays s + 2) \<and>
     (\<forall>X b. (\<exists>p \<in> set b. qualifies u p) \<and> (\<forall>p \<in> set b. qualifies u p \<longrightarrow> icao24 p = X) \<longrightarrow>
         candidateId u b = Some X) \<and>
     (\<forall>b. (\<forall>p \<in> set b. \<not> qualifies u p) \<longrightarrow> candidateId u b = None) \<and>
     (\<forall>a now r. userLocation_App a = Some u \<longrightarrow>
         detectedPlane_App (mockFetchPlaneData_App a now r) =
           (if qualifies_App u (mockPlane_App u now r)
            then (if map_option icao24_App (detectedPlane_App a)
                       = Some (icao24_App (mockPlane_App u now r))
                  then detectedPlane_App a else Some (mockPlane_App u now r))
            else None) \<and>
         notificationPlays_App (mockFetchPlaneData_App a now r) =
           (if qualifies_App u (mockPlane_App u now r) \<and>
               map_option icao24_App (detectedPlane_App a)
                 \<noteq> Some (icao24_App (mockPlane_App u now r))
            then Suc (notificationPlays_App a) else notificationPlays_App a))"
proof (intro conjI allI impI)
  fix p a d
  assume h: "notificationCandidate u ps = Some (p, a) \<and> detectedPlane s = Some d \<and>
         icao24 (sighting d) = icao24 p"
  then show "detectedPlane (fetchRealPlaneData s (Inr ps)) = detectedPlane s"
    by (simp add: fetch_detected [OF assms])
  from h show "notificationPlays (fetchRealPlaneData s (Inr ps)) = notificationPlays s"
    by (simp add: fetch_plays [OF assms])
next
  fix p a
  assume h: "notificationCandidate u ps = Some (p, a) \<and> notifiedId s \<noteq> Some (icao24 p)"
  then show "detectedPlane (fetchRealPlaneData s (Inr ps)) =
           Some \<lparr>sighting = p, altitude_ft = a, isMock = False\<rparr>"
    by (auto simp add: fetch_detected [OF assms] notifiedId_def split: option.split)
  from h show "notificationPlays (fetchRealPlaneData s (Inr ps)) = Suc (notificationPlays s)"
    by (auto simp add: fetch_plays [OF assms] notifiedId_def split: option.split)
next
  assume h: "notificationCandidate u ps = None"
  then show "detectedPlane (fetchRealPlaneData s (Inr ps)) = None"
    by (simp add: fetch_detected [OF assms])
  from h show "notificationPlays (fetchRealPlaneData s (Inr ps)) = notificationPlays s"
    by (simp add: fetch_plays [OF assms])
next
  fix X bs
  assume "bs \<noteq> [] \<and> (\<forall>b \<in> set bs. candidateId u b = Some X) \<and> notifiedId s \<noteq> Some X"
  then show "notificationPlays (polls s bs) = notificationPlays s + 1"
    using polls_enter [OF assms, of bs X] by simp
next
  fix X bs gap bs'
  assume h: "bs \<noteq> [] \<and> (\<forall>b \<in> set bs. candidateId u b = Some X) \<and>
         notifiedId s \<noteq> Some X \<and>
         gap \<noteq> [] \<and> (\<forall>b \<in> set gap. candidateId u b = None) \<and>
         bs' \<noteq> [] \<and> (\<forall>b \<in> set bs'. candidateId u b = Some X)"
  let ?s1 = "polls s bs"
  let ?s2 = "polls ?s1 gap"
  have 1: "notificationPlays ?s1 = Suc (notificationPlays s)"
    using polls_enter [OF assms, of bs X] h by simp
  have u1: "userLocation ?s1 = Some u" using assms by (simp add: polls_userLocation)
  have 2: "notificationPlays ?s2 = notificationPlays ?s1" "notifiedId ?s2 = None"
    using polls_none [OF u1, of gap] h by simp_all
  have u2: "userLocation ?s2 = Some u" using u1 by (simp add: polls_userLocation)
  have 3: "notificationPlays (polls ?s2 bs') = Suc (notificationPlays ?s2)"
    using polls_enter [OF u2, of bs' X] h 2(2) by simp
  show "notificationPlays (polls s (bs @ gap @ bs')) = notificationPlays s + 2"
    using 1 2(1) 3 by (simp add: polls_append)
next
  fix X b
  assume "(\<exists>p \<in> set b. qualifies u p) \<and> (\<forall>p \<in> set b. qualifies u p \<longrightarrow> icao24 p = X)"
  then show "candidateId u b = Some X" by (intro candidateId_only) simp_all
next
  fix b
  assume "\<forall>p \<in> set b. \<not> qualifies u p"
  then show "candidateId u b = None" by (rule candidateId_none)
next
  fix a :: app_App and now r
  assume ua: "userLocation_App a = Some u"
  show "detectedPlane_App (mockFetchPlaneData_App a now r) =
           (if qualifies_App u (mockPlane_App u now r)
            then (if map_option icao24_App (detectedPlane_App a)
                       = Some (icao24_App (mockPlane_App u now r))
                  then detectedPlane_App a else Some (mockPlane_App u now r))
            else None)"
    by (rule mockFetch_App_detected [OF ua])
  show "notificationPlays_App (mockFetchPlaneData_App a now r) =
           (if qualifies_App u (mockPlane_App u now r) \<and>
               map_option icao24_App (detectedPlane_App a)
                 \<noteq> Some (icao24_App (mockPlane_App u now r))
            then Suc (notificationPlays_App a) else notificationPlays_App a)"
    by (rule mockFetch_App_plays [OF ua])
qed

theorem debounce_cycles_witness:
  "userLocation (trackingAt exampleUser) = Some exampleUser \<and>
   candidateId exampleUser [farPlane] = Some ''bbb222'' \<and>
   candidateId exampleUser [lowPlane] = None \<and>
   notificationPlays (polls (trackingAt exampleUser) [[farPlane], [farPlane, lowPlane]]) = 1 \<and>
   notificationPlays
     (polls (trackingAt exampleUser)
        ([[farPlane], [farPlane, lowPlane]] @ [[lowPlane]] @ [[farPlane]])) = 2"
proof -
  have u: "userLocation (trackingAt exampleUser) = Some exampleUser"
    by (simp add: trackingAt_fields)
  have f: "candidateId exampleUser [farPlane] = Some ''bbb222''"
    "candidateId exampleUser [farPlane, lowPlane] = Some ''bbb222''"
    by (simp_all add: candidateId_def notificationCandidate_last qualifies_far
        not_qualifies_low) (simp_all add: farPlane_def)
  have l: "candidateId exampleUser [lowPlane] = None"
    by (simp add: candidateId_def notificationCandidate_last not_qualifies_low)
  have n: "notifiedId (trackingAt exampleUser) \<noteq> Some ''bbb222''"
    "notificationPlays (trackingAt exampleUser) = 0"
    by (simp_all add: notifiedId_def trackingAt_fields)
  note d = debounce_cycles [OF u, of "[]"]
  have a: "notificationPlays (polls (trackingAt exampleUser) [[farPlane], [farPlane, lowPlane]])
      = notificationPlays (trackingAt exampleUser) + 1"
    using d f n(1) by (auto simp del: polls.simps)
  have b: "notificationPlays
     (polls (trackingAt exampleUser)
        ([[farPlane], [farPlane, lowPlane]] @ [[lowPlane]] @ [[farPlane]]))
      = notificationPlays (trackingAt exampleUser) + 2"
  proof -
    from d have "[[farPlane], [farPlane, lowPlane]] \<noteq> [] \<and>
         (\<forall>b \<in> set [[farPlane], [farPlane, lowPlane]]. candidateId exampleUser b = Some ''bbb222'') \<and>
         notifiedId (trackingAt exampleUser) \<noteq> Some ''bbb222'' \<and>
         [[lowPlane]] \<noteq> [] \<and> (\<forall>b \<in> set [[lowPlane]]. candidateId exampleUser b = None) \<and>
         [[farPlane]] \<noteq> [] \<and> (\<forall>b \<in> set [[farPlane]]. candidateId exampleUser b = Some ''bbb222'') \<longrightarrow>
         notificationPlays (polls (trackingAt exampleUser)
           ([[farPlane], [farPlane, lowPlane]] @ [[lowPlane]] @ [[farPlane]])) =
         notificationPlays (trackingAt exampleUser) + 2"
      by blast
    then show ?thesis using f l n(1) by simp
  qed
  show ?thesis using u f(1) l a b n(2) by simp
qed

text \<open>
  What the amended statement leaves out. A poll compares its candidate with the
  \<open>detectedPlane\<close> its callback holds, the one of the render that issued it. When a second
  poll is issued before the first is answered, both hold \<open>null\<close>, and both signal for the
  same aircraft.
\<close>

lemma fetchResolved_plays:
  "notificationPlays (fetchResolved (Some u) cp s (Inr ps)) =
     (case notificationCandidate u ps of
        None \<Rightarrow> notificationPlays s
      | Some (p, a) \<Rightarrow>
          (case cp of
             None \<Rightarrow> Suc (notificationPlays s)
           | Some d \<Rightarrow> if icao24 (sighting d) \<noteq> icao24 p
                       then Suc (notificationPlays s) else notificationPlays s))"
  by (cases "scanPlanes u ps")
    (simp add: fetchResolved_def notificationCandidate_def playNotificationSound_def Let_def
      split: option.split prod.split)

lemma fetchResolved_detected:
  "detectedPlane (fetchResolved (Some u) cp s (Inr ps)) =
     (case notificationCandidate u ps of
        None \<Rightarrow> None
      | Some (p, a) \<Rightarrow>
          (case cp of
             None \<Rightarrow> Some \<lparr>sighting = p, altitude_ft = a, isMock = False\<rparr>
           | Some d \<Rightarrow> if icao24 (sighting d) \<noteq> icao24 p
                       then Some \<lparr>sighting = p, altitude_ft = a, isMock = False\<rparr>
                       else detectedPlane s))"
  by (cases "scanPlanes u ps")
    (simp add: fetchResolved_def notificationCandidate_def playNotificationSound_def Let_def
      split: option.split prod.split)

lemma overlapping_polls_resignal:
  "userLocation (trackingAt exampleUser) = Some exampleUser \<and>
   detectedPlane (trackingAt exampleUser) = None \<and>
   notificationPlays
     (run (trackingAt exampleUser)
        [FetchIssued, FetchIssued,
         FetchResolved (Some exampleUser) None (Inr [farPlane]),
         FetchResolved (Some exampleUser) None (Inr [farPlane])]) = 2 \<and>
   notifiedId
     (run (trackingAt exampleUser)
        [FetchIssued, FetchIssued,
         FetchResolved (Some exampleUser) None (Inr [farPlane])]) = Some ''bbb222''"
proof -
  have c: "notificationCandidate exampleUser [farPlane] =
      Some (farPlane, altitude_m farPlane * 3.28084)"
    by (simp add: notificationCandidate_last qualifies_far)
  have k: "notificationPlays (commit old new) = notificationPlays new"
    "detectedPlane (commit old new) = detectedPlane new" for old new
    by (simp_all add: commit_def Let_def)
  have f: "notificationPlays (fetchIssued s) = notificationPlays s" for s
    by (cases "userLocation s") (simp_all add: fetchIssued_def)
  have "notificationPlays
     (run (trackingAt exampleUser)
        [FetchIssued, FetchIssued,
         FetchResolved (Some exampleUser) None (Inr [farPlane]),
         FetchResolved (Some exampleUser) None (Inr [farPlane])]) = 2"
    by (simp add: step_def k f fetchResolved_plays c trackingAt_fields)
  moreover have "notifiedId
     (run (trackingAt exampleUser)
        [FetchIssued, FetchIssued,
         FetchResolved (Some exampleUser) None (Inr [farPlane])]) = Some ''bbb222''"
    by (simp add: step_def k notifiedId_def fetchResolved_detected c) (simp add: farPlane_def)
  ultimately show ?thesis by (simp add: trackingAt_fields)
qed

subsection \<open>Synthetic mode\<close>

text \<open>
  C10 (corrected). The identity of the synthetic sighting is \<open>'mock' + Date.now()\<close>: it is
  new only when the clock has moved on since the current NotifiedAircraft was generated. Two
  cycles within one millisecond (the effect that owns the mock timer calls
  \<open>mockFetchPlaneData\<close> again as soon as \<open>detectedPlane\<close> has changed) produce the same
  identity, and the second one, although it qualifies, is suppressed by the debounce.
\<close>

theorem mock_same_timestamp_suppressed:
  "qualifies exampleUser (mockPlane exampleUser 1700000000000 centredDraws) \<and>
   notifiedId (mockFetchPlaneData (mockingAt exampleUser) 1700000000000 centredDraws) =
     Some (icao24 (mockPlane exampleUser 1700000000000 centredDraws)) \<and>
   isMockMode (mockingAt exampleUser) \<and>
   notificationPlays (mockFetchPlaneData (mockingAt exampleUser) 1700000000000 centredDraws) = 1 \<and>
   notificationPlays
     (mockFetchPlaneData
        (mockFetchPlaneData (mockingAt exampleUser) 1700000000000 centredDraws)
        1700000000000 centredDraws) = 1 \<and>
   qualifies_App exampleUser (mockPlane_App exampleUser 1700000000000 centredDraws) \<and>
   notificationPlays_App
     (mockFetchPlaneData_App
        (mockFetchPlaneData_App (mockingAt_App exampleUser) 1700000000000 centredDraws)
        1700000000000 centredDraws) = 1"
proof -
  let ?t = "1700000000000 :: nat"
  let ?s1 = "mockFetchPlaneData (mockingAt exampleUser) ?t centredDraws"
  have u1: "userLocation ?s1 = Some exampleUser"
    by (simp add: mockFetch_userLocation mockingAt_fields)
  have p1: "notificationPlays ?s1 = 1"
    by (simp add: mockFetch_plays [OF mockingAt_fields(1)] qualifies_centred notifiedId_def
        mockingAt_fields)
  have n1: "notifiedId ?s1 = Some (icao24 (mockPlane exampleUser ?t centredDraws))"
    by (simp add: notifiedId_def mockFetch_detected [OF mockingAt_fields(1)] qualifies_centred
        mockingAt_fields)
  have p2: "notificationPlays (mockFetchPlaneData ?s1 ?t centredDraws) = 1"
    by (simp add: mockFetch_plays [OF u1] n1 p1)
  let ?a0 = "mockingAt_App exampleUser"
  let ?a1 = "mockFetchPlaneData_App ?a0 ?t centredDraws"
  have ua0: "userLocation_App ?a0 = Some exampleUser" by (simp add: mockingAt_App_fields)
  have ua1: "userLocation_App ?a1 = Some exampleUser"
    by (simp add: mockFetch_App_userLocation ua0)
  have pa1: "notificationPlays_App ?a1 = 1"
    by (simp add: mockFetch_App_plays [OF ua0] qualifies_App_centred mockingAt_App_fields)
  have na1: "map_option icao24_App (detectedPlane_App ?a1) =
      Some (icao24_App (mockPlane_App exampleUser ?t centredDraws))"
    by (simp add: mockFetch_App_detected [OF ua0] qualifies_App_centred mockingAt_App_fields)
  have pa2: "notificationPlays_App (mockFetchPlaneData_App ?a1 ?t centredDraws) = 1"
    by (simp add: mockFetch_App_plays [OF ua1] na1 pa1)
  show ?thesis
    using p1 p2 pa2 n1 qualifies_centred qualifies_App_centred mockingAt_fields(4) by blast
qed

text \<open>
  C10 as amended: in synthetic mode every cycle generates a sighting whose identity is
  \<open>'mock'\<close> followed by the decimal digits of the cycle's timestamp. Whenever the sighting
  meets the admission thresholds and that identity differs from the current
  NotifiedAircraft's (in particular whenever the NotifiedAircraft is a synthetic sighting of
  another timestamp, or there is none), it is promoted and the signal fires on that cycle;
  when the timestamp is the one of the current NotifiedAircraft, the cycle changes neither
  NotifiedAircraft nor the signal count. Both for the first file of part_000 and App.jsx.
\<close>

theorem mock_cycle_signals:
  "(userLocation s = Some u \<and> qualifies u (mockPlane u now r) \<longrightarrow>
      icao24 (mockPlane u now r) = ''mock'' @ digits now \<and>
      (notifiedId s \<noteq> Some (''mock'' @ digits now) \<longrightarrow>
         detectedPlane (mockFetchPlaneData s now r) =
           Some \<lparr>sighting = mockPlane u now r,
                 altitude_ft = altitude_m (mockPlane u now r) * 3.28084, isMock = True\<rparr> \<and>
         notificationPlays (mockFetchPlaneData s now r) = Suc (notificationPlays s)) \<and>
      (\<forall>t u' r'. t \<noteq> now \<and> map_option sighting (detectedPlane s) = Some (mockPlane u' t r') \<longrightarrow>
         notifiedId s \<noteq> Some (''mock'' @ digits now) \<and>
         notificationPlays (mockFetchPlaneData s now r) = Suc (notificationPlays s)) \<and>
      (notifiedId s = Some (''mock'' @ digits now) \<longrightarrow>
         detectedPlane (mockFetchPlaneData s now r) = detectedPlane s \<and>
         notificationPlays (mockFetchPlaneData s now r) = notificationPlays s)) \<and>
   (userLocation_App a = Some u \<and> qualifies_App u (mockPlane_App u now r) \<longrightarrow>
      icao24_App (mockPlane_App u now r) = ''mock'' @ digits now \<and>
      (map_option icao24_App (detectedPlane_App a) \<noteq> Some (''mock'' @ digits now) \<longrightarrow>
         detectedPlane_App (mockFetchPlaneData_App a now r) = Some (mockPlane_App u now r) \<and>
         notificationPlays_App (mockFetchPlaneData_App a now r) = Suc (notificationPlays_App a)) \<and>
      (\<forall>t u' r'. t \<noteq> now \<and> detectedPlane_App a = Some (mockPlane_App u' t r') \<longrightarrow>
         notificationPlays_App (mockFetchPlaneData_App a now r) = Suc (notificationPlays_App a)) \<and>
      (map_option icao24_App (detectedPlane_App a) = Some (''mock'' @ digits now) \<longrightarrow>
         detectedPlane_App (mockFetchPlaneData_App a now r) = detectedPlane_App a \<and>
         notificationPlays_App (mockFetchPlaneData_App a now r) = notificationPlays_App a))"
proof (intro conjI impI allI)
  show "icao24 (mockPlane u now r) = ''mock'' @ digits now"
    by (simp add: mockPlane_def)
  show "icao24_App (mockPlane_App u now r) = ''mock'' @ digits now"
    by (simp add: mockPlane_App_def)
next
  assume h: "userLocation s = Some u \<and> qualifies u (mockPlane u now r)"
  then have u: "userLocation s = Some u" and q: "qualifies u (mockPlane u now r)" by simp_all
  have i: "icao24 (mockPlane u now r) = ''mock'' @ digits now" by (simp add: mockPlane_def)
  {
    assume n: "notifiedId s \<noteq> Some (''mock'' @ digits now)"
    show "detectedPlane (mockFetchPlaneData s now r) =
           Some \<lparr>sighting = mockPlane u now r,
                 altitude_ft = altitude_m (mockPlane u now r) * 3.28084, isMock = True\<rparr>"
      using n q by (simp add: mockFetch_detected [OF u] i)
    show "notificationPlays (mockFetchPlaneData s now r) = Suc (notificationPlays s)"
      using n q by (simp add: mockFetch_plays [OF u] i)
  }
  {
    assume n: "notifiedId s = Some (''mock'' @ digits now)"
    show "detectedPlane (mockFetchPlaneData s now r) = detectedPlane s"
      using n q by (simp add: mockFetch_detected [OF u] i)
    show "notificationPlays (mockFetchPlaneData s now r) = notificationPlays s"
      using n q by (simp add: mockFetch_plays [OF u] i)
  }
  {
    fix t u' r'
    assume t: "t \<noteq> now \<and> map_option sighting (detectedPlane s) = Some (mockPlane u' t r')"
    then have "notifiedId s = Some (icao24 (mockPlane u' t r'))"
      by (auto simp add: notifiedId_def)
    with t show n: "notifiedId s \<noteq> Some (''mock'' @ digits now)"
      by (simp add: mockPlane_def digits_inject)
    show "notificationPlays (mockFetchPlaneData s now r) = Suc (notificationPlays s)"
      using n q by (simp add: mockFetch_plays [OF u] i)
  }
next
  assume h: "userLocation_App a = Some u \<and> qualifies_App u (mockPlane_App u now r)"
  then have u: "userLocation_App a = Some u" and q: "qualifies_App u (mockPlane_App u now r)"
    by simp_all
  have i: "icao24_App (mockPlane_App u now r) = ''mock'' @ digits now"
    by (simp add: mockPlane_App_def)
  {
    assume n: "map_option icao24_App (detectedPlane_App a) \<noteq> Some (''mock'' @ digits now)"
    have c: "map_option icao24_App (detectedPlane_App a)
        \<noteq> Some (icao24_App (mockPlane_App u now r))"
      unfolding i using n .
    show "detectedPlane_App (mockFetchPlaneData_App a now r) = Some (mockPlane_App u now r)"
      by (simp only: mockFetch_App_detected [OF u] q c if_True if_False simp_thms)
    show "notificationPlays_App (mockFetchPlaneData_App a now r) = Suc (notificationPlays_App a)"
      by (simp only: mockFetch_App_plays [OF u] q c if_True simp_thms)
  }
  {
    assume n: "map_option icao24_App (detectedPlane_App a) = Some (''mock'' @ digits now)"
    have c: "map_option icao24_App (detectedPlane_App a)
        = Some (icao24_App (mockPlane_App u now r))"
      unfolding i using n .
    show "detectedPlane_App (mockFetchPlaneData_App a now r) = detectedPlane_App a"
      by (simp only: mockFetch_App_detected [OF u] q c if_True simp_thms)
    show "notificationPlays_App (mockFetchPlaneData_App a now r) = notificationPlays_App a"
      by (simp only: mockFetch_App_plays [OF u] q c if_False if_True simp_thms)
  }
  {
    fix t u' r'
    assume t: "t \<noteq> now \<and> detectedPlane_App a = Some (mockPlane_App u' t r')"
    then have c: "map_option icao24_App (detectedPlane_App a)
        \<noteq> Some (icao24_App (mockPlane_App u now r))"
      by (simp add: mock_identity_App_inject)
    show "notificationPlays_App (mockFetchPlaneData_App a now r) = Suc (notificationPlays_App a)"
      by (simp only: mockFetch_App_plays [OF u] q c if_True simp_thms)
  }
qed

theorem mock_cycle_signals_witness:
  "userLocation (mockingAt exampleUser) = Some exampleUser \<and>
   qualifies exampleUser (mockPlane exampleUser 1700000000000 centredDraws) \<and>
   notifiedId (mockingAt exampleUser) \<noteq> Some (''mock'' @ digits 1700000000000) \<and>
   notificationPlays (mockFetchPlaneData (mockingAt exampleUser) 1700000000000 centredDraws) = 1 \<and>
   userLocation_App (mockingAt_App exampleUser) = Some exampleUser \<and>
   qualifies_App exampleUser (mockPlane_App exampleUser 1700000000000 centredDraws) \<and>
   notificationPlays_App
     (mockFetchPlaneData_App (mockingAt_App exampleUser) 1700000000000 centredDraws) = 1"
proof -
  have u: "userLocation (mockingAt exampleUser) = Some exampleUser"
    and n: "notifiedId (mockingAt exampleUser) \<noteq> Some (''mock'' @ digits 1700000000000)"
    and p: "notificationPlays (mockingAt exampleUser) = 0"
    by (simp_all add: mockingAt_fields notifiedId_def)
  have ua: "userLocation_App (mockingAt_App exampleUser) = Some exampleUser"
    and na: "map_option icao24_App (detectedPlane_App (mockingAt_App exampleUser))
        \<noteq> Some (''mock'' @ digits 1700000000000)"
    and pa: "notificationPlays_App (mockingAt_App exampleUser) = 0"
    by (simp_all add: mockingAt_App_fields)
  note t = mock_cycle_signals [of "mockingAt exampleUser" exampleUser 1700000000000 centredDraws
      "mockingAt_App exampleUser"]
  have "notificationPlays (mockFetchPlaneData (mockingAt exampleUser) 1700000000000 centredDraws)
      = Suc (notificationPlays (mockingAt exampleUser))"
    using t u n qualifies_centred by blast
  moreover have "notificationPlays_App
     (mockFetchPlaneData_App (mockingAt_App exampleUser) 1700000000000 centredDraws)
      = Suc (notificationPlays_App (mockingAt_App exampleUser))"
    using t ua na qualifies_App_centred by blast
  ultimately show ?thesis
    using u n ua p pa qualifies_centred qualifies_App_centred by simp
qed

lemma calculateDistance_equator:
  assumes "0 \<le> d" "d < 180"
  shows "calculateDistance 0 lo 0 (lo + d) = 6371 * (d * pi / 180)"
proof -
  define h where "h = d * pi / 360"
  have h0: "0 \<le> h" using assms by (simp add: h_def)
  have h1: "h < pi / 2" using assms pi_gt_zero by (simp add: h_def)
  have c: "0 < cos h" using h0 h1 by (intro cos_gt_zero_pi) auto
  have s: "0 \<le> sin h" using h0 h1 pi_gt_zero by (intro sin_ge_zero) auto
  have q: "1 - (sin h)\<^sup>2 = (cos h)\<^sup>2"
    using sin_cos_squared_add [of h] by linarith
  have "arctan (tan h) = h"
    using h0 h1 by (intro arctan_tan) auto
  then have at: "atan2 (sin h) (cos h) = h"
    using c by (simp add: atan2_def tan_def)
  have dl: "(lo + d - lo) * pi / 180 / 2 = h" by (simp add: h_def)
  have sq1: "sqrt ((sin h)\<^sup>2) = sin h" using s by simp
  have sq2: "sqrt (1 - (sin h)\<^sup>2) = cos h" using c by (simp add: q)
  have "calculateDistance 0 lo 0 (lo + d) =
      6371 * (2 * atan2 (sqrt ((sin h)\<^sup>2)) (sqrt (1 - (sin h)\<^sup>2)))"
    unfolding calculateDistance_def Let_def dl by (simp add: power2_eq_square)
  also have "\<dots> = 6371 * (2 * h)" by (simp only: sq1 sq2 at)
  also have "\<dots> = 6371 * (d * pi / 180)" by (simp add: h_def)
  finally show ?thesis .
qed

lemma calculateBearing_east:
  assumes "0 < d" "d < 180"
  shows "calculateBearing 0 lo 0 (lo + d) = 90"
proof -
  have "0 < sin (toRad d)"
    using assms pi_gt_zero by (intro sin_gt_zero) (auto simp: toRad_def)
  then have a: "atan2 (sin (toRad (lo + d - lo)) * cos (toRad 0))
      (cos (toRad 0) * sin (toRad 0) -
       sin (toRad 0) * cos (toRad 0) * cos (toRad (lo + d - lo))) = pi / 2"
    by (simp add: atan2_def toRad_def)
  have "calculateBearing 0 lo 0 (lo + d) = js_rem (toDeg (pi / 2) + 360) 360"
    unfolding calculateBearing_def Let_def a ..
  also have "\<dots> = 90"
    by (simp add: toDeg_def js_rem_def)
  finally show ?thesis .
qed

subsection \<open>The narration queue\<close>

lemma playNextInQueue_Nil:
  "audioQueue s = [] \<Longrightarrow> playNextInQueue s = s\<lparr>isSpeaking := False\<rparr>"
  by (subst playNextInQueue.simps) simp

lemma playNextInQueue_Some:
  "audioQueue s = t # ts \<Longrightarrow> soundFiles t = Some f \<Longrightarrow>
   playNextInQueue s =
     s\<lparr>isSpeaking := True, audioQueue := ts, audioPlayer := \<lparr>src = f, playing = True\<rparr>\<rparr>"
  by (subst playNextInQueue.simps) simp

lemma playNextInQueue_frame:
  "\<exists>q sp ap. playNextInQueue s = s\<lparr>audioQueue := q, isSpeaking := sp, audioPlayer := ap\<rparr> \<and>
     (\<not> playing (audioPlayer s) \<and> playing ap \<longrightarrow> sp)"
proof (induction s rule: playNextInQueue.induct)
  case (1 s)
  show ?case
  proof (cases "audioQueue s")
    case Nil
    have "playNextInQueue s = s\<lparr>audioQueue := [], isSpeaking := False, audioPlayer := audioPlayer s\<rparr>"
      using Nil by (simp add: playNextInQueue_Nil)
    then show ?thesis by blast
  next
    case (Cons t ts)
    show ?thesis
    proof (cases "soundFiles t")
      case (Some f)
      have "playNextInQueue s =
          s\<lparr>audioQueue := ts, isSpeaking := True, audioPlayer := \<lparr>src = f, playing = True\<rparr>\<rparr>"
        using Cons Some by (simp add: playNextInQueue_Some)
      then show ?thesis by blast
    next
      case None
      let ?s1 = "s\<lparr>isSpeaking := True, audioQueue := ts\<rparr>"
      from 1 [OF Cons None] obtain q sp ap where
        r: "playNextInQueue ?s1 = ?s1\<lparr>audioQueue := q, isSpeaking := sp, audioPlayer := ap\<rparr>"
        "\<not> playing (audioPlayer ?s1) \<and> playing ap \<longrightarrow> sp"
        by blast
      have "playNextInQueue s = playNextInQueue ?s1"
        using Cons None by (subst playNextInQueue.simps) simp
      with r have "playNextInQueue s = s\<lparr>audioQueue := q, isSpeaking := sp, audioPlayer := ap\<rparr>"
        by simp
      with r(2) show ?thesis by auto
    qed
  qed
qed

lemma named_sound:
  "\<exists>t f. getDirectionPhrase_named b = [t] \<and> soundFiles t = Some f"
  by (simp add: getDirectionPhrase_named_def soundFiles_def)

lemma compound_sound:
  "\<exists>t ts f. getDirectionPhrase b = t # ts \<and> audioRefs_App t = Some f"
  by (simp add: getDirectionPhrase_def audioRefs_App_def)

lemma handleSpeakDirection_speaking: "isSpeaking s \<Longrightarrow> handleSpeakDirection s = Inr s"
  by (simp add: handleSpeakDirection_def)

lemma handleSpeakDirection_idle:
  assumes "\<not> isSpeaking s" "detectedPlane s = Some d" "userLocation s = Some u"
    "getDirectionPhrase_named (calculateBearing (fst u) (snd u) (lat (sighting d))
       (lon (sighting d))) = [t]"
    "soundFiles t = Some f"
  shows "handleSpeakDirection s =
     Inr (s\<lparr>audioQueue := [], isSpeaking := True, audioPlayer := \<lparr>src = f, playing = True\<rparr>\<rparr>)"
proof -
  let ?s1 = "(stopAllAudio s)\<lparr>audioQueue := [t]\<rparr>"
  have "handleSpeakDirection s = Inr (playNextInQueue ?s1)"
    using assms(1-4) by (simp add: handleSpeakDirection_def Let_def)
  moreover have "playNextInQueue ?s1 =
      ?s1\<lparr>isSpeaking := True, audioQueue := [], audioPlayer := \<lparr>src = f, playing = True\<rparr>\<rparr>"
    using assms(5) by (intro playNextInQueue_Some) simp_all
  ultimately show ?thesis by (simp add: stopAllAudio_def)
qed

lemma playNextInQueue_App_Some:
  "audioQueue_App s = t # ts \<Longrightarrow> audioRefs_App t = Some f \<Longrightarrow>
   playNextInQueue_App s =
     s\<lparr>isSpeaking_App := True, audioQueue_App := ts,
       sounding_App := insert t (sounding_App s)\<rparr>"
  by (subst playNextInQueue_App.simps) simp

lemma playNextInQueue_2_Some:
  "audioQueue_2 s = t # ts \<Longrightarrow> audioRefs_App t = Some f \<Longrightarrow>
   playNextInQueue_2 s =
     s\<lparr>isSpeaking_2 := True, audioQueue_2 := ts, sounding_2 := insert t (sounding_2 s)\<rparr>"
  by (subst playNextInQueue_2.simps) simp

lemma handleSpeakDirection_2_idle:
  assumes "\<not> isSpeaking_2 s" "detectedPlane_2 s = Some d" "userLocation_2 s = Some u"
    "getDirectionPhrase (calculateBearing (fst u) (snd u) (lat (fst d)) (lon (fst d))) = t # ts"
    "audioRefs_App t = Some f"
  shows "handleSpeakDirection_2 s =
     Inr (s\<lparr>audioQueue_2 := ts, isSpeaking_2 := True, sounding_2 := insert t (sounding_2 s)\<rparr>)"
proof -
  let ?s1 = "s\<lparr>audioQueue_2 := t # ts\<rparr>"
  have "handleSpeakDirection_2 s = Inr (playNextInQueue_2 ?s1)"
    using assms(1-4) by (simp add: handleSpeakDirection_2_def Let_def)
  moreover have "playNextInQueue_2 ?s1 =
      ?s1\<lparr>isSpeaking_2 := True, audioQueue_2 := ts, sounding_2 := insert t (sounding_2 ?s1)\<rparr>"
    using assms(5) by (intro playNextInQueue_2_Some) simp_all
  ultimately show ?thesis by simp
qed

lemma handleSpeakDirection_App_idle:
  assumes "\<not> isSpeaking_App a" "getDirectionPhrase (bearing_App a) = t # ts"
    "audioRefs_App t = Some f"
  shows "handleSpeakDirection_App a =
     a\<lparr>audioQueue_App := ts, isSpeaking_App := True,
       sounding_App := insert t (sounding_App a)\<rparr>"
proof -
  let ?a1 = "a\<lparr>audioQueue_App := t # ts\<rparr>"
  have "handleSpeakDirection_App a = playNextInQueue_App ?a1"
    using assms(1,2) by (simp add: handleSpeakDirection_App_def Let_def)
  moreover have "playNextInQueue_App ?a1 =
      ?a1\<lparr>isSpeaking_App := True, audioQueue_App := ts,
           sounding_App := insert t (sounding_App ?a1)\<rparr>"
    using assms(3) by (intro playNextInQueue_App_Some) simp_all
  ultimately show ?thesis by simp
qed

subsection \<open>Effects leave the handlers' fields alone\<close>

lemma commit_fields:
  "userLocation (commit old new) = userLocation new"
  "detectedPlane (commit old new) = detectedPlane new"
  "isTracking (commit old new) = isTracking new"
  "isMockMode (commit old new) = isMockMode new"
  "bearing (commit old new) = bearing new"
  "notificationPlays (commit old new) = notificationPlays new"
  "audioPlayer (commit old new) = audioPlayer new"
  "audioQueue (commit old new) = audioQueue new"
  "isSpeaking (commit old new) = isSpeaking new"
  by (simp_all add: commit_def Let_def)

lemma commit_same: "commit s s = s"
  by (simp add: commit_def)

lemma fetch_audio:
  "audioPlayer (fetchRealPlaneData s r) = audioPlayer s"
  "audioQueue (fetchRealPlaneData s r) = audioQueue s"
  "isSpeaking (fetchRealPlaneData s r) = isSpeaking s"
  by (cases "userLocation s"; cases r;
      simp add: fetchRealPlaneData_poll playNotificationSound_def Let_def
        split: option.split prod.split)+

lemma mockFetch_audio:
  "audioPlayer (mockFetchPlaneData s now r) = audioPlayer s"
  "audioQueue (mockFetchPlaneData s now r) = audioQueue s"
  "isSpeaking (mockFetchPlaneData s now r) = isSpeaking s"
  by (cases "userLocation s";
      simp add: mockFetchPlaneData_def playNotificationSound_def Let_def)+

lemma detectedAt_far:
  "userLocation (detectedAt exampleUser [farPlane]) = Some exampleUser"
  "detectedPlane (detectedAt exampleUser [farPlane]) =
     Some \<lparr>sighting = farPlane, altitude_ft = altitude_m farPlane * 3.28084, isMock = False\<rparr>"
  "\<not> isSpeaking (detectedAt exampleUser [farPlane])"
  "\<not> playing (audioPlayer (detectedAt exampleUser [farPlane]))"
proof -
  have c: "notificationCandidate exampleUser [farPlane] =
      Some (farPlane, altitude_m farPlane * 3.28084)"
    by (simp add: notificationCandidate_last qualifies_far)
  show "userLocation (detectedAt exampleUser [farPlane]) = Some exampleUser"
    by (simp add: detectedAt_def step_def commit_fields fetch_userLocation trackingAt_fields)
  show "detectedPlane (detectedAt exampleUser [farPlane]) =
     Some \<lparr>sighting = farPlane, altitude_ft = altitude_m farPlane * 3.28084, isMock = False\<rparr>"
    by (simp add: detectedAt_def step_def commit_fields
        fetch_detected [OF trackingAt_fields(1)] c trackingAt_fields)
  have "\<not> isSpeaking (trackingAt exampleUser)" "\<not> playing (audioPlayer (trackingAt exampleUser))"
    by (simp_all add: trackingAt_def step_def commit_fields handleStartStopClick_def
        stopAllAudio_def locationFound_def Let_def)
  then show "\<not> isSpeaking (detectedAt exampleUser [farPlane])"
    "\<not> playing (audioPlayer (detectedAt exampleUser [farPlane]))"
    by (simp_all add: detectedAt_def step_def commit_fields fetch_audio)
qed

lemma bearing_to_far:
  "calculateBearing (fst exampleUser) (snd exampleUser) (lat farPlane) (lon farPlane) = 0"
  using calculateBearing_north [of "1/10" 0 0]
  by (simp add: exampleUser_def farPlane_def)

subsection \<open>The stale Bearing of App.jsx\<close>

lemma eastPlane_fields:
  "lat_App (mockPlane_App (0, 0) now eastDraws) = 0"
  "lon_App (mockPlane_App (0, 0) now eastDraws) = 0.03"
  "altitude_App (mockPlane_App (0, 0) now eastDraws) = 20000"
  by (simp_all add: mockPlane_App_def eastDraws_def MINIMUM_ALTITUDE_FT_def)

lemma qualifies_App_east: "qualifies_App (0, 0) (mockPlane_App (0, 0) now eastDraws)"
proof -
  have "calculateDistance 0 0 0 0.03 = 6371 * (0.03 * pi / 180)"
    using calculateDistance_equator [of "3/100" 0] by simp
  then have "calculateDistance 0 0 0 0.03 < 5"
    using pi_less_4 by simp
  then show ?thesis
    by (simp add: qualifies_App_def eastPlane_fields NOTIFICATION_RADIUS_KM_App_def
        MINIMUM_ALTITUDE_FT_def)
qed

lemma staleState_App_fields:
  "userLocation_App staleState_App = Some (- 0.03, 0.03)"
  "detectedPlane_App staleState_App = Some (mockPlane_App (0, 0) 1700000000000 eastDraws)"
  "bearing_App staleState_App = 90"
  "\<not> isSpeaking_App staleState_App"
  "sounding_App staleState_App = {}"
proof -
  let ?a0 = "mockingAt_App (0, 0)"
  let ?a1 = "mockFetchPlaneData_App ?a0 1700000000000 eastDraws"
  have b: "calculateBearing 0 0 0 0.03 = 90"
    using calculateBearing_east [of "3/100" 0] by simp
  have d: "detectedPlane_App ?a1 = Some (mockPlane_App (0, 0) 1700000000000 eastDraws)"
    by (simp add: mockFetch_App_detected [OF mockingAt_App_fields(1)] qualifies_App_east
        mockingAt_App_fields)
  have "bearing_App ?a1 = 90" "\<not> isSpeaking_App ?a1" "sounding_App ?a1 = {}"
    using b
    by (simp_all add: mockFetchPlaneData_App_def mockingAt_App_def Let_def eastPlane_fields)
  then show "bearing_App staleState_App = 90" "\<not> isSpeaking_App staleState_App"
    "sounding_App staleState_App = {}"
    by (simp_all add: staleState_App_def locationFound_App_def)
  show "userLocation_App staleState_App = Some (- 0.03, 0.03)"
    by (simp add: staleState_App_def locationFound_App_def)
  show "detectedPlane_App staleState_App = Some (mockPlane_App (0, 0) 1700000000000 eastDraws)"
    using d by (simp add: staleState_App_def locationFound_App_def)
qed

text \<open>
  C9 (corrected). \<open>handleSpeakDirection\<close> of App.jsx calls
  \<open>getDirectionPhrase(bearing)\<close> on the Bearing state, the value the last poll committed;
  it computes no bearing of its own. In \<open>staleState_App\<close> the committed Bearing is 90
  (the aircraft was due east of the user at the poll) while the bearing from the current user
  position to the NotifiedAircraft is 0: the narration plays the clip of East, not of North.
\<close>

theorem narration_App_uses_committed_bearing:
  "\<not> isSpeaking_App staleState_App \<and>
   userLocation_App staleState_App = Some (- 0.03, 0.03) \<and>
   map_option (\<lambda>p. (lat_App p, lon_App p)) (detectedPlane_App staleState_App) = Some (0, 0.03) \<and>
   bearing_App staleState_App = 90 \<and>
   getDirectionPhrase (calculateBearing (- 0.03) 0.03 0 0.03) = [''North''] \<and>
   sounding_App (handleSpeakDirection_App staleState_App) = {''East''} \<and>
   audioQueue_App (handleSpeakDirection_App staleState_App) = []"
proof -
  have "calculateBearing (- 0.03) 0.03 0 0.03 = 0"
    using calculateBearing_north [of "3/100" "- 3/100" "3/100"] by simp
  then have n: "getDirectionPhrase (calculateBearing (- 0.03) 0.03 0 0.03) = [''North'']"
    by (simp add: getDirectionPhrase_def)
  have e: "getDirectionPhrase (bearing_App staleState_App) = ''East'' # []"
    by (simp add: staleState_App_fields getDirectionPhrase_def)
  have r: "audioRefs_App ''East'' =
      Some ''https://actions.google.com/sounds/v1/beeps/beep_short.ogg''"
    by (simp add: audioRefs_App_def)
  note h = handleSpeakDirection_App_idle [OF staleState_App_fields(4) e r]
  have "sounding_App (handleSpeakDirection_App staleState_App) = {''East''}"
    "audioQueue_App (handleSpeakDirection_App staleState_App) = []"
    by (simp_all add: h staleState_App_fields)
  with n show ?thesis
    by (simp add: staleState_App_fields eastPlane_fields)
qed

text \<open>
  C9 as amended: on a narration request that is not a no-op, the two files of part_000
  classify the bearing recomputed from the current user position to the current
  NotifiedAircraft's position, whatever the committed Bearing is (the clip started is the
  first word of the phrase of that sector, for every value of the Bearing state); App.jsx
  classifies the Bearing committed by the last poll.
\<close>

theorem narration_bearing_source:
  "(\<not> isSpeaking s \<and> detectedPlane s = Some d \<and> userLocation s = Some u \<longrightarrow>
      (\<exists>t f. getDirectionPhrase_named
                (calculateBearing (fst u) (snd u) (lat (sighting d)) (lon (sighting d))) = [t] \<and>
              soundFiles t = Some f \<and>
              (\<forall>b. handleSpeakDirection (s\<lparr>bearing := b\<rparr>) =
                 Inr (s\<lparr>bearing := b, audioQueue := [], isSpeaking := True,
                        audioPlayer := \<lparr>src = f, playing = True\<rparr>\<rparr>)))) \<and>
   (\<not> isSpeaking_2 s2 \<and> detectedPlane_2 s2 = Some d2 \<and> userLocation_2 s2 = Some u2 \<longrightarrow>
      (\<exists>t ts f. getDirectionPhrase
                (calculateBearing (fst u2) (snd u2) (lat (fst d2)) (lon (fst d2))) = t # ts \<and>
              audioRefs_App t = Some f \<and>
              (\<forall>b. handleSpeakDirection_2 (s2\<lparr>bearing_2 := b\<rparr>) =
                 Inr (s2\<lparr>bearing_2 := b, audioQueue_2 := ts, isSpeaking_2 := True,
                         sounding_2 := insert t (sounding_2 s2)\<rparr>)))) \<and>
   (\<not> isSpeaking_App a \<longrightarrow>
      (\<exists>t ts f. getDirectionPhrase (bearing_App a) = t # ts \<and> audioRefs_App t = Some f \<and>
         handleSpeakDirection_App a =
           a\<lparr>audioQueue_App := ts, isSpeaking_App := True,
             sounding_App := insert t (sounding_App a)\<rparr>))"
proof (intro conjI impI)
  assume h: "\<not> isSpeaking s \<and> detectedPlane s = Some d \<and> userLocation s = Some u"
  obtain t f where tf: "getDirectionPhrase_named
      (calculateBearing (fst u) (snd u) (lat (sighting d)) (lon (sighting d))) = [t]"
    "soundFiles t = Some f"
    using named_sound by blast
  have "handleSpeakDirection (s\<lparr>bearing := b\<rparr>) =
      Inr (s\<lparr>bearing := b, audioQueue := [], isSpeaking := True,
             audioPlayer := \<lparr>src = f, playing = True\<rparr>\<rparr>)" for b
    using handleSpeakDirection_idle [of "s\<lparr>bearing := b\<rparr>" d u t f] h tf by simp
  with tf show "\<exists>t f. getDirectionPhrase_named
                (calculateBearing (fst u) (snd u) (lat (sighting d)) (lon (sighting d))) = [t] \<and>
              soundFiles t = Some f \<and>
              (\<forall>b. handleSpeakDirection (s\<lparr>bearing := b\<rparr>) =
                 Inr (s\<lparr>bearing := b, audioQueue := [], isSpeaking := True,
                        audioPlayer := \<lparr>src = f, playing = True\<rparr>\<rparr>))"
    by blast
next
  assume h: "\<not> isSpeaking_2 s2 \<and> detectedPlane_2 s2 = Some d2 \<and> userLocation_2 s2 = Some u2"
  obtain t ts f where tf: "getDirectionPhrase
      (calculateBearing (fst u2) (snd u2) (lat (fst d2)) (lon (fst d2))) = t # ts"
    "audioRefs_App t = Some f"
    using compound_sound by blast
  have "handleSpeakDirection_2 (s2\<lparr>bearing_2 := b\<rparr>) =
      Inr (s2\<lparr>bearing_2 := b, audioQueue_2 := ts, isSpeaking_2 := True,
              sounding_2 := insert t (sounding_2 s2)\<rparr>)" for b
    using handleSpeakDirection_2_idle [of "s2\<lparr>bearing_2 := b\<rparr>" d2 u2 t ts f] h tf by simp
  with tf show "\<exists>t ts f. getDirectionPhrase
                (calculateBearing (fst u2) (snd u2) (lat (fst d2)) (lon (fst d2))) = t # ts \<and>
              audioRefs_App t = Some f \<and>
              (\<forall>b. handleSpeakDirection_2 (s2\<lparr>bearing_2 := b\<rparr>) =
                 Inr (s2\<lparr>bearing_2 := b, audioQueue_2 := ts, isSpeaking_2 := True,
                         sounding_2 := insert t (sounding_2 s2)\<rparr>))"
    by blast
next
  assume h: "\<not> isSpeaking_App a"
  obtain t ts f where tf: "getDirectionPhrase (bearing_App a) = t # ts" "audioRefs_App t = Some f"
    using compound_sound by blast
  with handleSpeakDirection_App_idle [OF h tf]
  show "\<exists>t ts f. getDirectionPhrase (bearing_App a) = t # ts \<and> audioRefs_App t = Some f \<and>
         handleSpeakDirection_App a =
           a\<lparr>audioQueue_App := ts, isSpeaking_App := True,
             sounding_App := insert t (sounding_App a)\<rparr>"
    by blast
qed

theorem narration_bearing_source_witness:
  "\<not> isSpeaking (detectedAt exampleUser [farPlane]) \<and>
   userLocation (detectedAt exampleUser [farPlane]) = Some exampleUser \<and>
   map_option sighting (detectedPlane (detectedAt exampleUser [farPlane])) = Some farPlane \<and>
   handleSpeakDirection ((detectedAt exampleUser [farPlane])\<lparr>bearing := 123\<rparr>) =
     Inr ((detectedAt exampleUser [farPlane])
            \<lparr>bearing := 123, audioQueue := [], isSpeaking := True,
             audioPlayer := \<lparr>src = ''/aruna-vadak.mp3'', playing = True\<rparr>\<rparr>) \<and>
   \<not> isSpeaking_2 (detectedAt_2 exampleUser [farPlane]) \<and>
   handleSpeakDirection_2 ((detectedAt_2 exampleUser [farPlane])\<lparr>bearing_2 := 123\<rparr>) =
     Inr ((detectedAt_2 exampleUser [farPlane])
            \<lparr>bearing_2 := 123, audioQueue_2 := [], isSpeaking_2 := True,
             sounding_2 := {''North''}\<rparr>) \<and>
   \<not> isSpeaking_App staleState_App \<and>
   sounding_App (handleSpeakDirection_App staleState_App) = {''East''}"
proof -
  let ?s = "detectedAt exampleUser [farPlane]"
  let ?d = "\<lparr>sighting = farPlane, altitude_ft = altitude_m farPlane * 3.28084, isMock = False\<rparr>"
  note t = narration_bearing_source [of ?s ?d exampleUser "detectedAt_2 exampleUser [farPlane]"
      "(farPlane, altitude_m farPlane * 3.28084)" exampleUser staleState_App]
  from t detectedAt_far obtain tk f where tf:
    "getDirectionPhrase_named (calculateBearing (fst exampleUser) (snd exampleUser)
        (lat (sighting ?d)) (lon (sighting ?d))) = [tk]"
    "soundFiles tk = Some f"
    "\<forall>b. handleSpeakDirection (?s\<lparr>bearing := b\<rparr>) =
       Inr (?s\<lparr>bearing := b, audioQueue := [], isSpeaking := True,
              audioPlayer := \<lparr>src = f, playing = True\<rparr>\<rparr>)"
    by blast
  from tf(1) have "tk = ''North''"
    by (simp add: bearing_to_far getDirectionPhrase_named_def)
  with tf(2) have "f = ''/aruna-vadak.mp3''"
    by (simp add: soundFiles_def)
  with tf(3) have b: "handleSpeakDirection (?s\<lparr>bearing := 123\<rparr>) =
     Inr (?s\<lparr>bearing := 123, audioQueue := [], isSpeaking := True,
            audioPlayer := \<lparr>src = ''/aruna-vadak.mp3'', playing = True\<rparr>\<rparr>)"
    by blast
  from t staleState_App_fields(4) obtain ta ts fa where a:
    "getDirectionPhrase (bearing_App staleState_App) = ta # ts"
    "audioRefs_App ta = Some fa"
    "handleSpeakDirection_App staleState_App =
       staleState_App\<lparr>audioQueue_App := ts, isSpeaking_App := True,
         sounding_App := insert ta (sounding_App staleState_App)\<rparr>"
    by blast
  from a(1) have "ta = ''East''"
    by (simp add: staleState_App_fields getDirectionPhrase_def)
  with a(3) have "sounding_App (handleSpeakDirection_App staleState_App) = {''East''}"
    by (simp add: staleState_App_fields)
  moreover have "handleSpeakDirection_2 ((detectedAt_2 exampleUser [farPlane])\<lparr>bearing_2 := 123\<rparr>) =
     Inr ((detectedAt_2 exampleUser [farPlane])
            \<lparr>bearing_2 := 123, audioQueue_2 := [], isSpeaking_2 := True,
             sounding_2 := {''North''}\<rparr>)"
  proof -
    let ?s2 = "detectedAt_2 exampleUser [farPlane]"
    let ?d2 = "(farPlane, altitude_m farPlane * 3.28084)"
    from t detectedAt_2_far(2,4,5) obtain t2 ts2 f2 where c:
      "getDirectionPhrase (calculateBearing (fst exampleUser) (snd exampleUser)
          (lat (fst ?d2)) (lon (fst ?d2))) = t2 # ts2"
      "audioRefs_App t2 = Some f2"
      "\<forall>b. handleSpeakDirection_2 (?s2\<lparr>bearing_2 := b\<rparr>) =
         Inr (?s2\<lparr>bearing_2 := b, audioQueue_2 := ts2, isSpeaking_2 := True,
                 sounding_2 := insert t2 (sounding_2 ?s2)\<rparr>)"
      by blast
    from c(1) have "t2 = ''North''" "ts2 = []"
      by (simp_all add: bearing_to_far getDirectionPhrase_def)
    with c(3) show ?thesis
      by (simp add: detectedAt_2_far(6))
  qed
  ultimately show ?thesis
    using b by (simp add: detectedAt_far detectedAt_2_far(5) staleState_App_fields)
qed

subsection \<open>Reachable states\<close>

lemma reachable_run: "reachable s \<Longrightarrow> reachable (run s es)"
  by (induction es arbitrary: s) (simp_all add: reachable_step)

lemma reachable_trackingAt: "reachable (trackingAt u)"
  unfolding trackingAt_def by (intro reachable_run reachable_initial)

lemma reachable_detectedAt: "reachable (detectedAt u ps)"
  unfolding detectedAt_def by (intro reachable_step reachable_trackingAt)

lemma handleSpeakDirection_frame:
  "\<exists>q sp ap. (case handleSpeakDirection s of Inr s' \<Rightarrow> s' | Inl e \<Rightarrow> stopAllAudio s) =
       s\<lparr>audioQueue := q, isSpeaking := sp, audioPlayer := ap\<rparr> \<and>
     (isSpeaking s \<longrightarrow> q = audioQueue s \<and> sp \<and> ap = audioPlayer s) \<and>
     (playing ap \<longrightarrow> sp \<or> (\<not> isSpeaking s \<and> ap = audioPlayer s))"
proof (cases "isSpeaking s \<or> detectedPlane s = None")
  case True
  then have "handleSpeakDirection s = Inr s"
    by (auto simp add: handleSpeakDirection_def)
  then have "(case handleSpeakDirection s of Inr s' \<Rightarrow> s' | Inl e \<Rightarrow> stopAllAudio s) =
      s\<lparr>audioQueue := audioQueue s, isSpeaking := isSpeaking s, audioPlayer := audioPlayer s\<rparr>"
    by simp
  then show ?thesis by blast
next
  case False
  then obtain d where d: "\<not> isSpeaking s" "detectedPlane s = Some d" by auto
  show ?thesis
  proof (cases "userLocation s")
    case None
    with d have "handleSpeakDirection s = Inl TypeError"
      by (simp add: handleSpeakDirection_def Let_def)
    then have "(case handleSpeakDirection s of Inr s' \<Rightarrow> s' | Inl e \<Rightarrow> stopAllAudio s) =
        s\<lparr>audioQueue := [], isSpeaking := False,
          audioPlayer := (audioPlayer s)\<lparr>playing := False\<rparr>\<rparr>"
      by (simp add: stopAllAudio_def)
    moreover have "\<not> playing ((audioPlayer s)\<lparr>playing := False\<rparr>)" by simp
    ultimately show ?thesis using d(1) by blast
  next
    case (Some u)
    let ?phrase = "getDirectionPhrase_named (calculateBearing (fst u) (snd u)
        (lat (sighting d)) (lon (sighting d)))"
    let ?s1 = "(stopAllAudio s)\<lparr>audioQueue := ?phrase\<rparr>"
    have h: "handleSpeakDirection s = Inr (playNextInQueue ?s1)"
      using d Some by (simp add: handleSpeakDirection_def Let_def)
    obtain q sp ap where r:
      "playNextInQueue ?s1 = ?s1\<lparr>audioQueue := q, isSpeaking := sp, audioPlayer := ap\<rparr>"
      "\<not> playing (audioPlayer ?s1) \<and> playing ap \<longrightarrow> sp"
      using playNextInQueue_frame [of ?s1] by blast
    have "\<not> playing (audioPlayer ?s1)" by (simp add: stopAllAudio_def)
    with r(2) have p: "playing ap \<longrightarrow> sp" by simp
    have "(case handleSpeakDirection s of Inr s' \<Rightarrow> s' | Inl e \<Rightarrow> stopAllAudio s) =
        s\<lparr>audioQueue := q, isSpeaking := sp, audioPlayer := ap\<rparr>"
      using h r(1) by (simp add: stopAllAudio_def)
    with p d(1) show ?thesis by blast
  qed
qed

lemma audioEnded_frame:
  "\<exists>q sp ap. audioEnded s = s\<lparr>audioQueue := q, isSpeaking := sp, audioPlayer := ap\<rparr> \<and>
     (playing ap \<longrightarrow> sp \<or> \<not> playing (audioPlayer s))"
proof (cases "playing (audioPlayer s)")
  case False
  then have "audioEnded s =
      s\<lparr>audioQueue := audioQueue s, isSpeaking := isSpeaking s, audioPlayer := audioPlayer s\<rparr>"
    by (simp add: audioEnded_def)
  with False show ?thesis by blast
next
  case True
  let ?s1 = "s\<lparr>audioPlayer := (audioPlayer s)\<lparr>playing := False\<rparr>\<rparr>"
  obtain q sp ap where r:
    "playNextInQueue ?s1 = ?s1\<lparr>audioQueue := q, isSpeaking := sp, audioPlayer := ap\<rparr>"
    "\<not> playing (audioPlayer ?s1) \<and> playing ap \<longrightarrow> sp"
    using playNextInQueue_frame [of ?s1] by blast
  from r(2) have p: "playing ap \<longrightarrow> sp" by simp
  have "audioEnded s = s\<lparr>audioQueue := q, isSpeaking := sp, audioPlayer := ap\<rparr>"
    using True r(1) by (simp add: audioEnded_def)
  with p show ?thesis by blast
qed

lemma fetchIssued_frame:
  "scanningInterval (fetchIssued s) = scanningInterval s"
  "audioPlayer (fetchIssued s) = audioPlayer s"
  "audioQueue (fetchIssued s) = audioQueue s"
  "isSpeaking (fetchIssued s) = isSpeaking s"
  by (cases "userLocation s"; simp add: fetchIssued_def)+

lemma fetchResolved_frame:
  "scanningInterval (fetchResolved cl cp s r) = scanningInterval s"
  "audioPlayer (fetchResolved cl cp s r) = audioPlayer s"
  "audioQueue (fetchResolved cl cp s r) = audioQueue s"
  "isSpeaking (fetchResolved cl cp s r) = isSpeaking s"
  by (cases cl; cases r;
      simp add: fetchResolved_def playNotificationSound_def Let_def
        split: option.split prod.split)+

lemma dispatch_scanningInterval:
  "scanningInterval (dispatch e s) = scanningInterval s"
proof (cases e)
  case StartStopClick
  then show ?thesis
    by (simp add: handleStartStopClick_def getLocation_def stopAllAudio_def Let_def)
next
  case MockModeClick
  then show ?thesis
    by (simp add: handleMockModeClick_def getLocation_def stopAllAudio_def Let_def)
next
  case (LocationFound loc)
  then show ?thesis by (simp add: locationFound_def)
next
  case LocationDenied
  then show ?thesis by (simp add: locationDenied_def)
next
  case (LiveResponse r)
  then show ?thesis
    by (cases "userLocation s"; cases r)
      (simp_all add: fetchRealPlaneData_poll playNotificationSound_def Let_def
        split: option.split prod.split)
next
  case FetchIssued
  then show ?thesis by (simp add: fetchIssued_frame)
next
  case (FetchResolved cl cp r)
  then show ?thesis by (simp add: fetchResolved_frame)
next
  case (MockPoll now r)
  then show ?thesis
    by (cases "userLocation s")
      (simp_all add: mockFetchPlaneData_def playNotificationSound_def Let_def)
next
  case ScanningTick
  then show ?thesis by (simp add: scanningTick_def)
next
  case SpeakClick
  obtain q sp ap where
    "(case handleSpeakDirection s of Inr s' \<Rightarrow> s' | Inl e \<Rightarrow> stopAllAudio s) =
       s\<lparr>audioQueue := q, isSpeaking := sp, audioPlayer := ap\<rparr>"
    using handleSpeakDirection_frame [of s] by blast
  with SpeakClick show ?thesis by simp
next
  case AudioEnded
  obtain q sp ap where "audioEnded s = s\<lparr>audioQueue := q, isSpeaking := sp, audioPlayer := ap\<rparr>"
    using audioEnded_frame [of s] by blast
  with AudioEnded show ?thesis by simp
next
  case PlayRejected
  then show ?thesis by (simp add: playRejected_def)
qed

lemma commit_scanningInterval:
  assumes "scanningInterval new = scanningInterval old"
    "scanningInterval old = ((isTracking old \<or> isMockMode old) \<and> detectedPlane old = None)"
  shows "scanningInterval (commit old new) =
     ((isTracking new \<or> isMockMode new) \<and> detectedPlane new = None)"
  using assms by (auto simp add: commit_def Let_def scanningDeps_def)

lemma scanning_invariant:
  "reachable s \<Longrightarrow>
   scanningInterval s = ((isTracking s \<or> isMockMode s) \<and> detectedPlane s = None)"
proof (induction rule: reachable.induct)
  case (reachable_initial supported)
  show ?case by (simp add: initial_def)
next
  case (reachable_step s e)
  have "scanningInterval (commit s (dispatch e s)) =
     ((isTracking (dispatch e s) \<or> isMockMode (dispatch e s)) \<and> detectedPlane (dispatch e s) = None)"
    using reachable_step.IH by (intro commit_scanningInterval) (simp_all add: dispatch_scanningInterval)
  then show ?case by (simp add: step_def commit_fields)
qed

subsection \<open>The narration player\<close>

lemma dispatch_speaking:
  assumes "playing (audioPlayer s) \<longrightarrow> isSpeaking s"
  shows "playing (audioPlayer (dispatch e s)) \<longrightarrow> isSpeaking (dispatch e s)"
proof (cases e)
  case StartStopClick
  then show ?thesis
    by (simp add: handleStartStopClick_def getLocation_def stopAllAudio_def Let_def)
next
  case MockModeClick
  then show ?thesis
    by (simp add: handleMockModeClick_def getLocation_def stopAllAudio_def Let_def)
next
  case (LocationFound loc)
  with assms show ?thesis by (simp add: locationFound_def)
next
  case LocationDenied
  with assms show ?thesis by (simp add: locationDenied_def)
next
  case (LiveResponse r)
  with assms show ?thesis by (simp add: fetch_audio)
next
  case FetchIssued
  with assms show ?thesis by (simp add: fetchIssued_frame)
next
  case (FetchResolved cl cp r)
  with assms show ?thesis by (simp add: fetchResolved_frame)
next
  case (MockPoll now r)
  with assms show ?thesis by (simp add: mockFetch_audio)
next
  case ScanningTick
  with assms show ?thesis by (simp add: scanningTick_def)
next
  case SpeakClick
  obtain q sp ap where r:
    "(case handleSpeakDirection s of Inr s' \<Rightarrow> s' | Inl e \<Rightarrow> stopAllAudio s) =
       s\<lparr>audioQueue := q, isSpeaking := sp, audioPlayer := ap\<rparr>"
    "playing ap \<longrightarrow> sp \<or> (\<not> isSpeaking s \<and> ap = audioPlayer s)"
    using handleSpeakDirection_frame [of s] by blast
  with SpeakClick assms show ?thesis by auto
next
  case AudioEnded
  show ?thesis
  proof (cases "playing (audioPlayer s)")
    case False
    with AudioEnded show ?thesis by (simp add: audioEnded_def)
  next
    case True
    obtain q sp ap where r:
      "audioEnded s = s\<lparr>audioQueue := q, isSpeaking := sp, audioPlayer := ap\<rparr>"
      "playing ap \<longrightarrow> sp \<or> \<not> playing (audioPlayer s)"
      using audioEnded_frame [of s] by blast
    with AudioEnded True show ?thesis by auto
  qed
next
  case PlayRejected
  with assms show ?thesis by (simp add: playRejected_def)
qed

lemma speaking_while_playing:
  "reachable s \<Longrightarrow> playing (audioPlayer s) \<longrightarrow> isSpeaking s"
proof (induction rule: reachable.induct)
  case (reachable_initial supported)
  show ?case by (simp add: initial_def)
next
  case (reachable_step s e)
  then show ?case
    using dispatch_speaking [of s e] by (simp add: step_def commit_fields)
qed

lemma step_SpeakClick_speaking: "isSpeaking s \<Longrightarrow> step s SpeakClick = s"
  by (simp add: step_def handleSpeakDirection_speaking commit_same)

lemma step_keeps_clip:
  assumes "playing (audioPlayer s)" "isSpeaking s" "e \<noteq> AudioEnded"
  shows "audioPlayer (step s e) = audioPlayer s \<or> \<not> playing (audioPlayer (step s e))"
proof (cases e)
  case StartStopClick
  then show ?thesis
    by (simp add: step_def commit_fields handleStartStopClick_def getLocation_def
        stopAllAudio_def Let_def)
next
  case MockModeClick
  then show ?thesis
    by (simp add: step_def commit_fields handleMockModeClick_def getLocation_def
        stopAllAudio_def Let_def)
next
  case (LocationFound loc)
  then show ?thesis by (simp add: step_def commit_fields locationFound_def)
next
  case LocationDenied
  then show ?thesis by (simp add: step_def commit_fields locationDenied_def)
next
  case (LiveResponse r)
  then show ?thesis by (simp add: step_def commit_fields fetch_audio)
next
  case FetchIssued
  then show ?thesis by (simp add: step_def commit_fields fetchIssued_frame)
next
  case (FetchResolved cl cp r)
  then show ?thesis by (simp add: step_def commit_fields fetchResolved_frame)
next
  case (MockPoll now r)
  then show ?thesis by (simp add: step_def commit_fields mockFetch_audio)
next
  case ScanningTick
  then show ?thesis by (simp add: step_def commit_fields scanningTick_def)
next
  case SpeakClick
  with assms(2) show ?thesis by (simp add: step_SpeakClick_speaking)
next
  case AudioEnded
  with assms(3) show ?thesis by simp
next
  case PlayRejected
  then show ?thesis by (simp add: step_def commit_fields playRejected_def)
qed

lemma narrating_fields:
  "reachable narrating" "playing (audioPlayer narrating)"
  "src (audioPlayer narrating) = ''/aruna-vadak.mp3''" "isSpeaking narrating"
  "audioQueue narrating = []"
proof -
  let ?s = "detectedAt exampleUser [farPlane]"
  have p: "getDirectionPhrase_named (calculateBearing (fst exampleUser) (snd exampleUser)
       (lat (sighting \<lparr>sighting = farPlane, altitude_ft = altitude_m farPlane * 3.28084,
          isMock = False\<rparr>))
       (lon (sighting \<lparr>sighting = farPlane, altitude_ft = altitude_m farPlane * 3.28084,
          isMock = False\<rparr>))) = [''North'']"
    by (simp add: bearing_to_far getDirectionPhrase_named_def)
  have f: "soundFiles ''North'' = Some ''/aruna-vadak.mp3''"
    by (simp add: soundFiles_def)
  note h = handleSpeakDirection_idle [OF detectedAt_far(3) detectedAt_far(2) detectedAt_far(1) p f]
  show "reachable narrating"
    unfolding narrating_def by (intro reachable_step reachable_detectedAt)
  show "playing (audioPlayer narrating)" "src (audioPlayer narrating) = ''/aruna-vadak.mp3''"
    "isSpeaking narrating" "audioQueue narrating = []"
    by (simp_all add: narrating_def step_def commit_fields h)
qed

text \<open>
  C7 (confirmed). \<open>stopAllAudio\<close>, from any state, leaves the player halted, the queue
  empty and the flag cleared, and calling it again changes nothing. The narration has one
  audio element; a narration request while the flag is set is a no-op, and in every
  reachable state in which a clip is playing the flag is set, so that the request changes
  nothing and no event but the completion of the clip starts another clip: every other
  event leaves the player with its clip or halts it.
\<close>

theorem stopAllAudio_cancels:
  "\<not> playing (audioPlayer (stopAllAudio s)) \<and> audioQueue (stopAllAudio s) = [] \<and>
   \<not> isSpeaking (stopAllAudio s) \<and>
   stopAllAudio (stopAllAudio s) = stopAllAudio s \<and>
   (isSpeaking s \<longrightarrow> handleSpeakDirection s = Inr s) \<and>
   (reachable s \<and> playing (audioPlayer s) \<longrightarrow>
      isSpeaking s \<and> step s SpeakClick = s \<and>
      (\<forall>e. e \<noteq> AudioEnded \<longrightarrow>
         audioPlayer (step s e) = audioPlayer s \<or> \<not> playing (audioPlayer (step s e))))"
proof (intro conjI impI allI)
  show "\<not> playing (audioPlayer (stopAllAudio s))" "audioQueue (stopAllAudio s) = []"
    "\<not> isSpeaking (stopAllAudio s)" "stopAllAudio (stopAllAudio s) = stopAllAudio s"
    by (simp_all add: stopAllAudio_def)
next
  assume "isSpeaking s"
  then show "handleSpeakDirection s = Inr s" by (rule handleSpeakDirection_speaking)
next
  assume h: "reachable s \<and> playing (audioPlayer s)"
  then show sp: "isSpeaking s" using speaking_while_playing by blast
  then show "step s SpeakClick = s" by (rule step_SpeakClick_speaking)
  fix e
  assume "e \<noteq> AudioEnded"
  with h sp show "audioPlayer (step s e) = audioPlayer s \<or> \<not> playing (audioPlayer (step s e))"
    by (intro step_keeps_clip) simp_all
qed

theorem stopAllAudio_cancels_witness:
  "reachable narrating \<and> playing (audioPlayer narrating) \<and> isSpeaking narrating \<and>
   step narrating SpeakClick = narrating \<and>
   audioPlayer (step narrating (LiveResponse (Inr [nearPlane]))) = audioPlayer narrating \<and>
   \<not> playing (audioPlayer (stopAllAudio narrating)) \<and>
   audioQueue (stopAllAudio narrating) = [] \<and> \<not> isSpeaking (stopAllAudio narrating)"
proof -
  note t = stopAllAudio_cancels [of narrating]
  have "audioPlayer (step narrating (LiveResponse (Inr [nearPlane]))) = audioPlayer narrating"
    by (simp add: step_def commit_fields fetch_audio)
  with t narrating_fields show ?thesis by blast
qed

subsection \<open>Idle rotation\<close>

lemma step_ScanningTick_idle: "\<not> scanningInterval s \<Longrightarrow> step s ScanningTick = s"
  by (simp add: step_def scanningTick_def commit_same)

lemma playNextInQueue_2_frame:
  "\<exists>q sp so. playNextInQueue_2 s = s\<lparr>audioQueue_2 := q, isSpeaking_2 := sp, sounding_2 := so\<rparr>"
proof (induction s rule: playNextInQueue_2.induct)
  case (1 s)
  show ?case
  proof (cases "audioQueue_2 s")
    case Nil
    then have "playNextInQueue_2 s =
        s\<lparr>audioQueue_2 := [], isSpeaking_2 := False, sounding_2 := sounding_2 s\<rparr>"
      by (subst playNextInQueue_2.simps) simp
    then show ?thesis by blast
  next
    case (Cons t ts)
    show ?thesis
    proof (cases "audioRefs_App t")
      case (Some f)
      have "playNextInQueue_2 s =
          s\<lparr>audioQueue_2 := ts, isSpeaking_2 := True, sounding_2 := insert t (sounding_2 s)\<rparr>"
        using Cons Some by (simp add: playNextInQueue_2_Some)
      then show ?thesis by blast
    next
      case None
      let ?s1 = "s\<lparr>isSpeaking_2 := True, audioQueue_2 := ts\<rparr>"
      from 1 [OF Cons None] obtain q sp so where
        r: "playNextInQueue_2 ?s1 = ?s1\<lparr>audioQueue_2 := q, isSpeaking_2 := sp, sounding_2 := so\<rparr>"
        by blast
      have "playNextInQueue_2 s = playNextInQueue_2 ?s1"
        using Cons None by (subst playNextInQueue_2.simps) simp
      with r have "playNextInQueue_2 s =
          s\<lparr>audioQueue_2 := q, isSpeaking_2 := sp, sounding_2 := so\<rparr>"
        by simp
      then show ?thesis by blast
    qed
  qed
qed

lemma narration_2_frame:
  "\<exists>q sp so. dispatch_2 SpeakClick_2 s = s\<lparr>audioQueue_2 := q, isSpeaking_2 := sp, sounding_2 := so\<rparr>"
  "\<exists>q sp so. dispatch_2 (AudioEnded_2 k) s =
     s\<lparr>audioQueue_2 := q, isSpeaking_2 := sp, sounding_2 := so\<rparr>"
proof -
  have same: "\<exists>q sp so. s = s\<lparr>audioQueue_2 := q, isSpeaking_2 := sp, sounding_2 := so\<rparr>"
    by (intro exI [of _ "audioQueue_2 s"] exI [of _ "isSpeaking_2 s"]
        exI [of _ "sounding_2 s"]) simp
  show "\<exists>q sp so. dispatch_2 SpeakClick_2 s =
      s\<lparr>audioQueue_2 := q, isSpeaking_2 := sp, sounding_2 := so\<rparr>"
  proof (cases "handleSpeakDirection_2 s")
    case (Inl e)
    with same show ?thesis by simp
  next
    case (Inr s')
    show ?thesis
    proof (cases "isSpeaking_2 s \<or> detectedPlane_2 s = None")
      case True
      then have "handleSpeakDirection_2 s = Inr s"
        by (auto simp add: handleSpeakDirection_2_def)
      with same show ?thesis by simp
    next
      case False
      then obtain d where d: "\<not> isSpeaking_2 s" "detectedPlane_2 s = Some d" by auto
      with Inr obtain u where u: "userLocation_2 s = Some u"
        by (cases "userLocation_2 s") (simp_all add: handleSpeakDirection_2_def)
      let ?s1 = "s\<lparr>audioQueue_2 := getDirectionPhrase (calculateBearing (fst u) (snd u)
          (lat (fst d)) (lon (fst d)))\<rparr>"
      have "s' = playNextInQueue_2 ?s1"
        using Inr d u by (simp add: handleSpeakDirection_2_def Let_def)
      moreover obtain q sp so where
        "playNextInQueue_2 ?s1 = ?s1\<lparr>audioQueue_2 := q, isSpeaking_2 := sp, sounding_2 := so\<rparr>"
        using playNextInQueue_2_frame [of ?s1] by blast
      ultimately have "dispatch_2 SpeakClick_2 s =
          s\<lparr>audioQueue_2 := q, isSpeaking_2 := sp, sounding_2 := so\<rparr>"
        using Inr by simp
      then show ?thesis by blast
    qed
  qed
  show "\<exists>q sp so. dispatch_2 (AudioEnded_2 k) s =
     s\<lparr>audioQueue_2 := q, isSpeaking_2 := sp, sounding_2 := so\<rparr>"
  proof (cases "k \<in> sounding_2 s")
    case False
    with same show ?thesis by (simp add: audioEnded_2_def)
  next
    case True
    let ?s1 = "s\<lparr>sounding_2 := sounding_2 s - {k}\<rparr>"
    obtain q sp so where
      "playNextInQueue_2 ?s1 = ?s1\<lparr>audioQueue_2 := q, isSpeaking_2 := sp, sounding_2 := so\<rparr>"
      using playNextInQueue_2_frame [of ?s1] by blast
    with True have "dispatch_2 (AudioEnded_2 k) s =
        s\<lparr>audioQueue_2 := q, isSpeaking_2 := sp, sounding_2 := so\<rparr>"
      by (simp add: audioEnded_2_def)
    then show ?thesis by blast
  qed
qed

lemma fetch_2_halves_frame:
  "animationFrame_2 (fetchIssued_2 s) = animationFrame_2 s"
  "animationFrame_2 (fetchResolved_2 cl cp s r) = animationFrame_2 s"
proof -
  show "animationFrame_2 (fetchIssued_2 s) = animationFrame_2 s"
    by (cases "userLocation_2 s") (simp_all add: fetchIssued_2_def)
  show "animationFrame_2 (fetchResolved_2 cl cp s r) = animationFrame_2 s"
    by (cases cl; cases r)
      (simp_all add: fetchResolved_2_def Let_def split: option.split prod.split)
qed

lemma dispatch_2_animationFrame:
  assumes "animationFrame_2 s = (isTracking_2 s \<and> detectedPlane_2 s = None)"
  shows "animationFrame_2 (dispatch_2 e s) = animationFrame_2 s"
proof (cases e)
  case (StartStopClick_2 granted)
  then show ?thesis
    by (simp add: handleStartStopClick_2_def getLocation_2_def Let_def)
next
  case (LocationFound_2 loc)
  then show ?thesis by (simp add: locationFound_2_def)
next
  case LocationDenied_2
  then show ?thesis by (simp add: locationDenied_2_def)
next
  case (LiveResponse_2 r)
  then show ?thesis
    by (cases "userLocation_2 s"; cases r)
      (simp_all add: fetchRealPlaneData_2_poll Let_def split: option.split prod.split)
next
  case FetchIssued_2
  then show ?thesis by (simp add: fetch_2_halves_frame)
next
  case (FetchResolved_2 cl cp r)
  then show ?thesis by (simp add: fetch_2_halves_frame)
next
  case (AnimationFrame_2 time)
  with assms show ?thesis by (simp add: rotateNeedle_2_def Let_def)
next
  case SpeakClick_2
  obtain q sp so where
    "dispatch_2 SpeakClick_2 s = s\<lparr>audioQueue_2 := q, isSpeaking_2 := sp, sounding_2 := so\<rparr>"
    using narration_2_frame(1) [of s] by blast
  with SpeakClick_2 show ?thesis by simp
next
  case (AudioEnded_2 k)
  obtain q sp so where
    "dispatch_2 (AudioEnded_2 k) s =
       s\<lparr>audioQueue_2 := q, isSpeaking_2 := sp, sounding_2 := so\<rparr>"
    using narration_2_frame(2) [of k s] by blast
  with AudioEnded_2 show ?thesis by simp
qed

lemma rotateNeedle_2_deps: "needleDeps_2 (rotateNeedle_2 s time) = needleDeps_2 s"
  by (simp add: rotateNeedle_2_def needleDeps_2_def Let_def)

lemma commit_2_animationFrame:
  assumes "animationFrame_2 new = animationFrame_2 old"
    "animationFrame_2 old = (isTracking_2 old \<and> detectedPlane_2 old = None)"
  shows "animationFrame_2 (commit_2 old new) = (isTracking_2 new \<and> detectedPlane_2 new = None)"
  using assms by (auto simp add: commit_2_def Let_def needleDeps_2_def)

lemma needle_invariant:
  "reachable_2 s \<Longrightarrow> animationFrame_2 s = (isTracking_2 s \<and> detectedPlane_2 s = None)"
proof (induction rule: reachable_2.induct)
  case (reachable_2_initial supported)
  show ?case by (simp add: initial_2_def)
next
  case (reachable_2_step s e)
  have "animationFrame_2 (commit_2 s (dispatch_2 e s)) =
      (isTracking_2 (dispatch_2 e s) \<and> detectedPlane_2 (dispatch_2 e s) = None)"
    using reachable_2_step.IH
    by (intro commit_2_animationFrame) (simp_all add: dispatch_2_animationFrame)
  then show ?case by (simp add: step_2_def commit_2_fields)
qed

lemma step_2_frame_idle: "\<not> animationFrame_2 s \<Longrightarrow> step_2 s (AnimationFrame_2 time) = s"
  by (simp add: step_2_def rotateNeedle_2_def commit_2_def)

text \<open>
  C6 (confirmed). In every state reached by the handlers, each followed by React's pass over
  the effects, the timer of the idle rotation is set exactly when tracking (live or
  synthetic) is active and no NotifiedAircraft is set; it is never set while a
  NotifiedAircraft exists, its callback then leaves the Bearing alone, and the very step
  that sets a NotifiedAircraft or stops tracking clears it. The first file of part_000
  (\<open>setInterval\<close>) and the second (\<open>requestAnimationFrame\<close>).
\<close>

theorem idle_rotation_gated:
  "(reachable s \<longrightarrow>
      scanningInterval s = ((isTracking s \<or> isMockMode s) \<and> detectedPlane s = None) \<and>
      (detectedPlane s \<noteq> None \<or> \<not> (isTracking s \<or> isMockMode s) \<longrightarrow>
         \<not> scanningInterval s \<and> step s ScanningTick = s) \<and>
      (\<forall>e. detectedPlane (step s e) \<noteq> None \<or> \<not> (isTracking (step s e) \<or> isMockMode (step s e))
            \<longrightarrow> \<not> scanningInterval (step s e))) \<and>
   (reachable_2 s2 \<longrightarrow>
      animationFrame_2 s2 = (isTracking_2 s2 \<and> detectedPlane_2 s2 = None) \<and>
      (detectedPlane_2 s2 \<noteq> None \<or> \<not> isTracking_2 s2 \<longrightarrow>
         \<not> animationFrame_2 s2 \<and> (\<forall>time. step_2 s2 (AnimationFrame_2 time) = s2)) \<and>
      (\<forall>e. detectedPlane_2 (step_2 s2 e) \<noteq> None \<or> \<not> isTracking_2 (step_2 s2 e)
            \<longrightarrow> \<not> animationFrame_2 (step_2 s2 e)))"
proof (intro conjI impI allI)
  assume r: "reachable s"
  show i: "scanningInterval s = ((isTracking s \<or> isMockMode s) \<and> detectedPlane s = None)"
    using r by (rule scanning_invariant)
  {
    assume "detectedPlane s \<noteq> None \<or> \<not> (isTracking s \<or> isMockMode s)"
    with i show n: "\<not> scanningInterval s" by auto
    then show "step s ScanningTick = s" by (rule step_ScanningTick_idle)
  }
  {
    fix e
    assume h: "detectedPlane (step s e) \<noteq> None \<or>
        \<not> (isTracking (step s e) \<or> isMockMode (step s e))"
    have "reachable (step s e)" using r by (rule reachable_step)
    from scanning_invariant [OF this] h show "\<not> scanningInterval (step s e)" by auto
  }
next
  assume r: "reachable_2 s2"
  show i: "animationFrame_2 s2 = (isTracking_2 s2 \<and> detectedPlane_2 s2 = None)"
    using r by (rule needle_invariant)
  {
    assume "detectedPlane_2 s2 \<noteq> None \<or> \<not> isTracking_2 s2"
    with i show n: "\<not> animationFrame_2 s2" by auto
    fix time
    from n show "step_2 s2 (AnimationFrame_2 time) = s2" by (rule step_2_frame_idle)
  }
  {
    fix e
    assume h: "detectedPlane_2 (step_2 s2 e) \<noteq> None \<or> \<not> isTracking_2 (step_2 s2 e)"
    have "reachable_2 (step_2 s2 e)" using r by (rule reachable_2_step)
    from needle_invariant [OF this] h show "\<not> animationFrame_2 (step_2 s2 e)" by auto
  }
qed

theorem idle_rotation_gated_witness:
  "reachable (trackingAt exampleUser) \<and> scanningInterval (trackingAt exampleUser) \<and>
   detectedPlane (step (trackingAt exampleUser) (LiveResponse (Inr [farPlane]))) \<noteq> None \<and>
   \<not> scanningInterval (step (trackingAt exampleUser) (LiveResponse (Inr [farPlane]))) \<and>
   reachable_2 (trackingAt_2 exampleUser) \<and> animationFrame_2 (trackingAt_2 exampleUser) \<and>
   detectedPlane_2 (step_2 (trackingAt_2 exampleUser) (LiveResponse_2 (Inr [farPlane]))) \<noteq> None \<and>
   \<not> animationFrame_2 (step_2 (trackingAt_2 exampleUser) (LiveResponse_2 (Inr [farPlane])))"
proof -
  note t = idle_rotation_gated [of "trackingAt exampleUser" "trackingAt_2 exampleUser"]
  have d: "detectedPlane (step (trackingAt exampleUser) (LiveResponse (Inr [farPlane]))) \<noteq> None"
    using detectedAt_far(2) by (simp add: detectedAt_def)
  have d2: "detectedPlane_2 (step_2 (trackingAt_2 exampleUser) (LiveResponse_2 (Inr [farPlane])))
      \<noteq> None"
    using detectedAt_2_far(2) by (simp add: detectedAt_2_def)
  have a: "scanningInterval (trackingAt exampleUser)"
    "\<not> scanningInterval (step (trackingAt exampleUser) (LiveResponse (Inr [farPlane])))"
    using t reachable_trackingAt [of exampleUser] trackingAt_fields(2,4) [of exampleUser] d
    by blast+
  have b: "animationFrame_2 (trackingAt_2 exampleUser)"
    "\<not> animationFrame_2 (step_2 (trackingAt_2 exampleUser) (LiveResponse_2 (Inr [farPlane])))"
    using t trackingAt_2_fields(1,2,3) [of exampleUser] d2
    by blast+
  show ?thesis
    using a b d d2 reachable_trackingAt trackingAt_2_fields(1) by blast
qed

end
